theory Spec2Isabelle
  imports Complex_Main "HOL-Library.Log_Nat"
begin

section \<open>Python values used by \<open>nikocraft/window/rgb.py\<close>\<close>

text \<open>
  The exceptions the modelled code can raise. \<open>AttributeError\<close> is the failure of a
  lookup by name in a class namespace.
\<close>

datatype py_error = ValueError | ZeroDivisionError | OverflowError | AttributeError

text \<open>
  An exception aborts the rest of the computation: \<open>Inl\<close> carries it, \<open>Inr\<close> the value.
\<close>

definition and_then :: "py_error + 'a \<Rightarrow> ('a \<Rightarrow> py_error + 'b) \<Rightarrow> py_error + 'b" where
  "and_then m f = (case m of Inl e \<Rightarrow> Inl e | Inr x \<Rightarrow> f x)"

text \<open>
  Python's \<open>int\<close> is unbounded (\<open>int\<close>). A Python \<open>float\<close> is an IEEE-754 double: a
  finite value (kept as the rational number it denotes), an infinity, or NaN. The sign of
  a zero is not kept: no operation below distinguishes \<open>0.0\<close> from \<open>-0.0\<close>.
\<close>

datatype pyfloat = Finite rat | PosInf | NegInf | NaN

datatype number = PyInt int | PyFloat pyfloat

text \<open>Rounding a rational to the nearest integer, ties to the even neighbour.\<close>

definition round_half_even :: "rat \<Rightarrow> int" where
  "round_half_even q =
     (let f = \<lfloor>q\<rfloor>; d = q - of_int f
      in if d < 1 / 2 then f
         else if 1 / 2 < d then f + 1
         else if even f then f else f + 1)"

text \<open>
  The built-in \<open>round(x)\<close> with one argument: an \<open>int\<close> is returned unchanged, a
  \<open>float\<close> is rounded half to even to an \<open>int\<close>; NaN raises \<open>ValueError\<close> and an
  infinity raises \<open>OverflowError\<close>.
\<close>

fun py_round :: "number \<Rightarrow> py_error + int" where
  "py_round (PyInt n) = Inr n"
| "py_round (PyFloat (Finite q)) = Inr (round_half_even q)"
| "py_round (PyFloat PosInf) = Inl OverflowError"
| "py_round (PyFloat NegInf) = Inl OverflowError"
| "py_round (PyFloat NaN) = Inl ValueError"

section \<open>The colour value type \<open>RGBColor\<close>\<close>

text \<open>
  \<open>class RGBColor(tuple)\<close>: a triple whose components are read as \<open>red\<close>, \<open>green\<close>
  and \<open>blue\<close> (\<open>self[0]\<close>, \<open>self[1]\<close>, \<open>self[2]\<close>).
\<close>

record RGBColor =
  red :: int
  green :: int
  blue :: int

text \<open>
  \<open>__new__(cls, red, green, blue)\<close> stores \<open>(round(red), round(green), round(blue))\<close>;
  the three roundings happen left to right and the first failure is raised.
\<close>

definition RGBColor_new :: "number \<Rightarrow> number \<Rightarrow> number \<Rightarrow> py_error + RGBColor" where
  "RGBColor_new r g b =
     and_then (py_round r) (\<lambda>r'.
     and_then (py_round g) (\<lambda>g'.
     and_then (py_round b) (\<lambda>b'.
       Inr \<lparr>red = r', green = g', blue = b'\<rparr>)))"

text \<open>\<open>list(self)\<close> is \<open>[*self]\<close>.\<close>

definition list_of :: "RGBColor \<Rightarrow> int list" where
  "list_of self = [red self, green self, blue self]"

text \<open>
  \<open>clamp(self)\<close>: the body of the loop \<open>for i in range(3)\<close> on the list \<open>clamped\<close>,
  then the loop, then \<open>RGBColor(*clamped)\<close>.
\<close>

definition clamp_body :: "int list \<Rightarrow> nat \<Rightarrow> int list" where
  "clamp_body clamped i =
     (if clamped ! i < 0 then clamped[i := 0]
      else if 255 < clamped ! i then clamped[i := 255]
      else clamped)"

definition clamp :: "RGBColor \<Rightarrow> py_error + RGBColor" where
  "clamp self =
     (let clamped = foldl clamp_body (list_of self) [0 ..< 3]
      in RGBColor_new (PyInt (clamped ! 0)) (PyInt (clamped ! 1)) (PyInt (clamped ! 2)))"

text \<open>\<open>__eq__\<close> and \<open>__ne__\<close> compare the three components.\<close>

definition eq_color :: "RGBColor \<Rightarrow> RGBColor \<Rightarrow> bool" where
  "eq_color self other \<longleftrightarrow>
     red self = red other \<and> green self = green other \<and> blue self = blue other"

definition ne_color :: "RGBColor \<Rightarrow> RGBColor \<Rightarrow> bool" where
  "ne_color self other \<longleftrightarrow>
     red self \<noteq> red other \<or> green self \<noteq> green other \<or> blue self \<noteq> blue other"

text \<open>\<open>__add__\<close> and \<open>__sub__\<close>: the component-wise result is built, then clamped.\<close>

definition add :: "RGBColor \<Rightarrow> RGBColor \<Rightarrow> py_error + RGBColor" where
  "add self other =
     and_then (RGBColor_new (PyInt (red self + red other))
                            (PyInt (green self + green other))
                            (PyInt (blue self + blue other))) clamp"

definition sub :: "RGBColor \<Rightarrow> RGBColor \<Rightarrow> py_error + RGBColor" where
  "sub self other =
     and_then (RGBColor_new (PyInt (red self - red other))
                            (PyInt (green self - green other))
                            (PyInt (blue self - blue other))) clamp"

text \<open>
  Vocabulary for the statements about clamping, in the words of the specification: a
  channel clipped to the closed range from 0 to 255 (below 0 becomes 0, above 255 becomes
  255, a value in range is unchanged).
\<close>

definition clip :: "int \<Rightarrow> int" where
  "clip x = (if x < 0 then 0 else if 255 < x then 255 else x)"

section \<open>Arithmetic of a channel with a scalar\<close>

text \<open>
  The doubles. A finite double is a multiple of its quantum: for a value in the binade
  \<open>2^e \<le> |q| < 2^(e+1)\<close> the quantum is \<open>2^(e-52)\<close>, and below \<open>2^(-1022)\<close> it stays
  \<open>2^(-1074)\<close>. \<open>round_double\<close> rounds a rational to the nearest such multiple, ties to
  the even one. A value of magnitude \<open>2^1024 - 2^970\<close> or more rounds beyond the largest
  double: an IEEE operation then yields an infinity (\<open>ieee\<close>).
\<close>

definition dbl_limit :: rat where
  "dbl_limit = 2 ^ 1024 - 2 ^ 970"

definition floor_log2 :: "rat \<Rightarrow> int" where
  "floor_log2 q = (if 1 \<le> q then bitlen \<lfloor>q\<rfloor> - 1 else - bitlen (\<lceil>1 / q\<rceil> - 1))"

definition round_double :: "rat \<Rightarrow> rat" where
  "round_double q =
     (if q = 0 then 0
      else let e = max (floor_log2 \<bar>q\<bar>) (- 1022);
               u = power_int 2 (e - 52)
           in of_int (round_half_even (q / u)) * u)"

definition ieee :: "rat \<Rightarrow> pyfloat" where
  "ieee q =
     (if dbl_limit \<le> q then PosInf
      else if q \<le> - dbl_limit then NegInf
      else Finite (round_double q))"

text \<open>
  An \<open>int\<close> operand of a \<open>float\<close> operation is converted first; the conversion rounds
  to the nearest double and raises \<open>OverflowError\<close> when the \<open>int\<close> is too large.
\<close>

definition float_of_int :: "int \<Rightarrow> py_error + rat" where
  "float_of_int n =
     (if dbl_limit \<le> \<bar>of_int n\<bar> then Inl OverflowError
      else Inr (round_double (of_int n)))"

text \<open>
  \<open>x * y\<close>, \<open>x / y\<close> and \<open>x // y\<close> for a finite double \<open>x\<close> (the converted channel)
  and a \<open>float\<close> \<open>y\<close>. Multiplication never raises. Both divisions raise
  \<open>ZeroDivisionError\<close> for a zero divisor. Floor division follows CPython: the exact
  remainder \<open>fmod(x, y)\<close> is taken off, the difference is divided by \<open>y\<close>, one is
  subtracted when remainder and divisor differ in sign, and the result is snapped to the
  nearest whole number.
\<close>

fun float_mul :: "rat \<Rightarrow> pyfloat \<Rightarrow> pyfloat" where
  "float_mul a (Finite b) = ieee (a * b)"
| "float_mul a PosInf = (if a = 0 then NaN else if 0 < a then PosInf else NegInf)"
| "float_mul a NegInf = (if a = 0 then NaN else if 0 < a then NegInf else PosInf)"
| "float_mul a NaN = NaN"






text \<open>
  \<open>self[i] * factor\<close>, \<open>self[i] / divisor\<close> and \<open>self[i] // divisor\<close> for a channel
  (an \<open>int\<close>) and a scalar of type \<open>Union[int, float]\<close>. Between two \<open>int\<close>s the product
  and the floor quotient are exact, and the true quotient is the double nearest to the
  exact quotient, \<open>OverflowError\<close> when that is too large for a double; a zero \<open>int\<close>
  divisor raises \<open>ZeroDivisionError\<close> before anything else.
\<close>

fun py_mul :: "int \<Rightarrow> number \<Rightarrow> py_error + number" where
  "py_mul a (PyInt b) = Inr (PyInt (a * b))"
| "py_mul a (PyFloat y) = and_then (float_of_int a) (\<lambda>x. Inr (PyFloat (float_mul x y)))"



text \<open>
  \<open>__mul__\<close>, \<open>__truediv__\<close> and \<open>__floordiv__\<close>: the three channel results are
  computed from left to right, passed to the constructor (which rounds them), and the
  colour is clamped.
\<close>

definition mul :: "RGBColor \<Rightarrow> number \<Rightarrow> py_error + RGBColor" where
  "mul self factor =
     and_then (py_mul (red self) factor) (\<lambda>r.
     and_then (py_mul (green self) factor) (\<lambda>g.
     and_then (py_mul (blue self) factor) (\<lambda>b.
     and_then (RGBColor_new r g b) clamp)))"



text \<open>\<open>mix(self, color)\<close> is \<open>((self + color) * 0.5).clamp()\<close>.\<close>

definition mix :: "RGBColor \<Rightarrow> RGBColor \<Rightarrow> py_error + RGBColor" where
  "mix self color =
     and_then (and_then (add self color) (\<lambda>s. mul s (PyFloat (Finite (1 / 2))))) clamp"

text \<open>
  Vocabulary for the statements about arithmetic: half of an integer rounded half to
  even, a quotient of two integers that is small enough for a double, an \<open>int\<close> that is
  small enough to be converted to a \<open>float\<close>, and the double it is converted to.
\<close>

definition half_even :: "int \<Rightarrow> int" where
  "half_even n = round_half_even (of_int n / 2)"




section \<open>Hexadecimal strings\<close>

text \<open>
  A Python \<open>str\<close> is a sequence of Unicode code points: a list of natural numbers.
  \<open>str_of\<close> gives the \<open>str\<close> of a text written in 8-bit characters.
\<close>

type_synonym str = "nat list"

definition str_of :: "string \<Rightarrow> str" where
  "str_of s = map of_char s"

text \<open>
  \<open>'%02x' % n\<close> for an \<open>int\<close>: the lowercase hexadecimal digits of the absolute value,
  a minus sign in front of a negative number, and zeros between sign and digits up to a
  total width of two.
\<close>

definition hexdigit :: "nat \<Rightarrow> char" where
  "hexdigit d = ''0123456789abcdef'' ! d"

function hex_digits :: "nat \<Rightarrow> string" where
  "hex_digits n = (if n < 16 then [hexdigit n] else hex_digits (n div 16) @ [hexdigit (n mod 16)])"
  by pat_completeness auto
termination
  by (relation "measure id") auto

declare hex_digits.simps [simp del]

definition format_02x :: "int \<Rightarrow> string" where
  "format_02x n =
     (let sign = (if n < 0 then ''-'' else []);
          digits = hex_digits (nat \<bar>n\<bar>)
      in sign @ replicate (2 - (length sign + length digits)) CHR ''0'' @ digits)"

text \<open>The property \<open>hex\<close>: \<open>'#%02x%02x%02x' % self\<close>.\<close>

definition hex :: "RGBColor \<Rightarrow> str" where
  "hex self =
     str_of (''#'' @ format_02x (red self) @ format_02x (green self) @ format_02x (blue self))"

text \<open>
  \<open>str.replace(old, new)\<close>: the occurrences of \<open>old\<close> are found from left to right
  without overlap, each search starting behind the previous occurrence. An empty \<open>old\<close>
  matches before every character and at the end.
\<close>

function replace_str :: "'a list \<Rightarrow> 'a list \<Rightarrow> 'a list \<Rightarrow> 'a list" where
  "replace_str s old new =
     (if old = [] then new @ concat (map (\<lambda>c. c # new) s)
      else if s = [] then []
      else if take (length old) s = old then new @ replace_str (drop (length old) s) old new
      else hd s # replace_str (tl s) old new)"
  by pat_completeness auto
termination
  by (relation "measure (\<lambda>(s, old, new). length s)") auto

declare replace_str.simps [simp del]

text \<open>The slice \<open>s[i:j]\<close> for \<open>0 \<le> i \<le> j\<close>.\<close>

definition slice :: "'a list \<Rightarrow> nat \<Rightarrow> nat \<Rightarrow> 'a list" where
  "slice s i j = take (j - i) (drop i s)"

text \<open>
  \<open>int(s, 16)\<close> on a \<open>str\<close>, as CPython computes it, in two steps. First the \<open>str\<close>
  is brought into ASCII: a \<open>str\<close> of code points below 128 is taken as it is; in any
  other, a code point below 127 stands for itself, Unicode whitespace becomes a space, a
  Unicode decimal digit becomes the ASCII digit of its value, and at the first code point
  that is none of these the text ends with a question mark. The whitespace is that of
  \<open>str.isspace\<close>. U+007F is neither whitespace nor a digit.

  The table of decimal digit values belongs to the Unicode database of the interpreter
  and differs between its versions; it is the parameter \<open>dec\<close> (\<open>dec c = Some d\<close> when
  the code point \<open>c\<close> is a decimal digit of value \<open>d\<close>), consulted for code points from
  128 on.
\<close>

definition unicode_isspace :: "nat \<Rightarrow> bool" where
  "unicode_isspace c \<longleftrightarrow>
     (0x09 \<le> c \<and> c \<le> 0x0D) \<or> (0x1C \<le> c \<and> c \<le> 0x1F) \<or> c = 0x20 \<or> c = 0x85 \<or> c = 0xA0
     \<or> c = 0x1680 \<or> (0x2000 \<le> c \<and> c \<le> 0x200A) \<or> c = 0x2028 \<or> c = 0x2029
     \<or> c = 0x202F \<or> c = 0x205F \<or> c = 0x3000"

definition to_ascii :: "(nat \<Rightarrow> nat option) \<Rightarrow> nat \<Rightarrow> char option" where
  "to_ascii dec c =
     (if c < 127 then Some (char_of c)
      else if c = 127 then None
      else if unicode_isspace c then Some CHR '' ''
      else (case dec c of
              None \<Rightarrow> None
            | Some d \<Rightarrow> if d < 10 then Some (char_of (48 + d)) else None))"

fun transform :: "(nat \<Rightarrow> nat option) \<Rightarrow> str \<Rightarrow> string" where
  "transform dec [] = []"
| "transform dec (c # cs) =
     (case to_ascii dec c of
        None \<Rightarrow> ''?''
      | Some a \<Rightarrow> a # transform dec cs)"

definition ascii_form :: "(nat \<Rightarrow> nat option) \<Rightarrow> str \<Rightarrow> string" where
  "ascii_form dec s = (if list_all (\<lambda>c. c < 128) s then map char_of s else transform dec s)"

text \<open>
  Then the ASCII text is parsed. Its whitespace characters are tab, line feed, vertical
  tab, form feed, carriage return and space. The digits are \<open>0-9\<close>, \<open>a-z\<close> and \<open>A-Z\<close>
  with values 0 to 35, every other character has the value 37; a digit is valid in base
  16 when its value is below 16.
\<close>

definition py_isspace :: "char \<Rightarrow> bool" where
  "py_isspace c \<longleftrightarrow> (of_char c :: nat) \<in> {9, 10, 11, 12, 13, 32}"

definition digit_value :: "char \<Rightarrow> nat" where
  "digit_value c =
     (let n = (of_char c :: nat)
      in if 48 \<le> n \<and> n \<le> 57 then n - 48
         else if 97 \<le> n \<and> n \<le> 122 then n - 87
         else if 65 \<le> n \<and> n \<le> 90 then n - 55
         else 37)"

text \<open>
  The digit scan: digits and underscores are consumed while they last; two underscores
  in a row or an underscore at the end of the run is a syntax error (\<open>None\<close>). The result
  is the list of digits consumed and the unread rest. \<open>prev\<close> is the character read
  before, initially the null character.
\<close>

fun scan_digits :: "char \<Rightarrow> string \<Rightarrow> (string \<times> string) option" where
  "scan_digits prev [] = (if prev = CHR ''_'' then None else Some ([], []))"
| "scan_digits prev (c # cs) =
     (if c = CHR ''_'' then (if prev = CHR ''_'' then None else scan_digits c cs)
      else if digit_value c < 16
        then map_option (\<lambda>(ds, r). (c # ds, r)) (scan_digits c cs)
      else if prev = CHR ''_'' then None
      else Some ([], c # cs))"

text \<open>
  The whole parse: leading whitespace, an optional sign, an optional prefix \<open>0x\<close> or
  \<open>0X\<close> followed by at most one underscore, a non-empty run of digits that does not start
  with an underscore, trailing whitespace, and nothing else.
\<close>

definition strip_sign :: "string \<Rightarrow> int \<times> string" where
  "strip_sign s =
     (case s of
        [] \<Rightarrow> (1, s)
      | c # r \<Rightarrow> if c = CHR ''+'' then (1, r) else if c = CHR ''-'' then (- 1, r) else (1, s))"

definition strip_prefix16 :: "string \<Rightarrow> string" where
  "strip_prefix16 s =
     (case s of
        c0 # c1 # r \<Rightarrow>
          if c0 = CHR ''0'' \<and> (c1 = CHR ''x'' \<or> c1 = CHR ''X'')
          then (case r of [] \<Rightarrow> r | c2 # r' \<Rightarrow> if c2 = CHR ''_'' then r' else r)
          else s
      | _ \<Rightarrow> s)"

definition parse_int16 :: "string \<Rightarrow> py_error + int" where
  "parse_int16 s =
     (let (sign, s2) = strip_sign (dropWhile py_isspace s);
          s3 = strip_prefix16 s2
      in case s3 of
           [] \<Rightarrow> Inl ValueError
         | c # cs \<Rightarrow>
             if c = CHR ''_'' then Inl ValueError
             else (case scan_digits (CHR 0x00) s3 of
                     None \<Rightarrow> Inl ValueError
                   | Some (ds, r) \<Rightarrow>
                       if ds = [] \<or> dropWhile py_isspace r \<noteq> [] then Inl ValueError
                       else Inr (sign * int (foldl (\<lambda>acc d. acc * 16 + digit_value d) 0 ds))))"

definition int_base16 :: "(nat \<Rightarrow> nat option) \<Rightarrow> str \<Rightarrow> py_error + int" where
  "int_base16 dec s = parse_int16 (ascii_form dec s)"

text \<open>
  \<open>from_hex(cls, value)\<close>: every \<open>#\<close> and then every \<open>0x\<close> is replaced by the empty
  string; the slices \<open>value[0:2]\<close>, \<open>value[2:4]\<close> and \<open>value[4:6]\<close> are parsed in this
  order and passed to the constructor.
\<close>

definition cleaned :: "str \<Rightarrow> str" where
  "cleaned value = replace_str (replace_str value (str_of ''#'') []) (str_of ''0x'') []"

definition from_hex :: "(nat \<Rightarrow> nat option) \<Rightarrow> str \<Rightarrow> py_error + RGBColor" where
  "from_hex dec value =
     (let value = cleaned value
      in and_then (int_base16 dec (slice value 0 2)) (\<lambda>r.
         and_then (int_base16 dec (slice value 2 4)) (\<lambda>g.
         and_then (int_base16 dec (slice value 4 6)) (\<lambda>b.
           RGBColor_new (PyInt r) (PyInt g) (PyInt b)))))"

text \<open>
  Vocabulary for the statements about \<open>from_hex\<close>. A hexadecimal digit. The ASCII
  character a code point is read as: itself, a space for Unicode whitespace, the digit
  for a Unicode decimal digit, a question mark for anything else. A slice of at most two
  characters that is one or two hexadecimal digits, a digit after a sign or a whitespace
  character, or a digit before a whitespace character. Deleting, in one pass from left to
  right, every \<open>0x\<close> that does not overlap one deleted before; a \<open>str\<close> in which \<open>0x\<close>
  occurs. The two-digit lowercase rendering of a channel, written after the specification
  (\<open>2-digit-hex\<close>), to compare \<open>hex\<close> with.
\<close>

definition is_hex :: "char \<Rightarrow> bool" where
  "is_hex c \<longleftrightarrow> digit_value c < 16"

definition reads_as :: "(nat \<Rightarrow> nat option) \<Rightarrow> nat \<Rightarrow> char" where
  "reads_as dec c = (case to_ascii dec c of None \<Rightarrow> CHR ''?'' | Some a \<Rightarrow> a)"

fun hex_group_ok :: "string \<Rightarrow> bool" where
  "hex_group_ok [a] = is_hex a"
| "hex_group_ok [a, b] =
     (is_hex a \<and> is_hex b
      \<or> (a = CHR ''+'' \<or> a = CHR ''-'' \<or> py_isspace a) \<and> is_hex b
      \<or> is_hex a \<and> py_isspace b)"
| "hex_group_ok _ = False"

fun delete_0x :: "str \<Rightarrow> str" where
  "delete_0x (a # b # r) = (if a = 48 \<and> b = 120 then delete_0x r else a # delete_0x (b # r))"
| "delete_0x s = s"

fun contains_0x :: "str \<Rightarrow> bool" where
  "contains_0x (a # b # r) = (a = 48 \<and> b = 120 \<or> contains_0x (b # r))"
| "contains_0x _ = False"

definition two_digit_hex :: "int \<Rightarrow> string" where
  "two_digit_hex n = [''0123456789abcdef'' ! nat (n div 16), ''0123456789abcdef'' ! nat (n mod 16)]"

section \<open>The named colours \<open>RGB\<close>\<close>

text \<open>
  An entry of the table is written \<open>RGBColor(r, g, b)\<close> with integer literals; on
  integers the constructor rounds nothing and cannot fail.
\<close>

definition rgb :: "int \<Rightarrow> int \<Rightarrow> int \<Rightarrow> RGBColor" where
  "rgb r g b = \<lparr>red = r, green = g, blue = b\<rparr>"

text \<open>
  The body of \<open>class RGB(Enum)\<close>: the assignments \<open>NAME: RGBColor = RGBColor(r, g, b)\<close>
  in the order of the source.
\<close>

definition RGB_body :: "(string \<times> RGBColor) list" where
  "RGB_body = [
    (''ALICEBLUE'', rgb 240 248 255), (''ANTIQUEWHITE'', rgb 250 235 215),
    (''ANTIQUEWHITE1'', rgb 255 239 219), (''ANTIQUEWHITE2'', rgb 238 223 204),
    (''ANTIQUEWHITE3'', rgb 205 192 176), (''ANTIQUEWHITE4'', rgb 139 131 120),
    (''AQUA'', rgb 0 255 255), (''AQUAMARINE1'', rgb 127 255 212),
    (''AQUAMARINE2'', rgb 118 238 198), (''AQUAMARINE3'', rgb 102 205 170),
    (''AQUAMARINE4'', rgb 69 139 116), (''AZURE1'', rgb 240 255 255),
    (''AZURE2'', rgb 224 238 238), (''AZURE3'', rgb 193 205 205), (''AZURE4'', rgb 131 139 139),
    (''BANANA'', rgb 227 207 87), (''BEIGE'', rgb 245 245 220), (''BISQUE1'', rgb 255 228 196),
    (''BISQUE2'', rgb 238 213 183), (''BISQUE3'', rgb 205 183 158),
    (''BISQUE4'', rgb 139 125 107), (''BLACK'', rgb 0 0 0),
    (''BLANCHEDALMOND'', rgb 255 235 205), (''BLUE'', rgb 0 0 255), (''BLUE2'', rgb 0 0 238),
    (''BLUE3'', rgb 0 0 205), (''BLUE4'', rgb 0 0 139), (''BLUEVIOLET'', rgb 138 43 226),
    (''BRICK'', rgb 156 102 31), (''BROWN'', rgb 165 42 42), (''BROWN1'', rgb 255 64 64),
    (''BROWN2'', rgb 238 59 59), (''BROWN3'', rgb 205 51 51), (''BROWN4'', rgb 139 35 35),
    (''BURLYWOOD'', rgb 222 184 135), (''BURLYWOOD1'', rgb 255 211 155),
    (''BURLYWOOD2'', rgb 238 197 145), (''BURLYWOOD3'', rgb 205 170 125),
    (''BURLYWOOD4'', rgb 139 115 85), (''BURNTSIENNA'', rgb 138 54 15),
    (''BURNTUMBER'', rgb 138 51 36), (''CADETBLUE'', rgb 95 158 160),
    (''CADETBLUE1'', rgb 152 245 255), (''CADETBLUE2'', rgb 142 229 238),
    (''CADETBLUE3'', rgb 122 197 205), (''CADETBLUE4'', rgb 83 134 139),
    (''CADMIUMORANGE'', rgb 255 97 3), (''CADMIUMYELLOW'', rgb 255 153 18),
    (''CARROT'', rgb 237 145 33), (''CHARTREUSE1'', rgb 127 255 0),
    (''CHARTREUSE2'', rgb 118 238 0), (''CHARTREUSE3'', rgb 102 205 0),
    (''CHARTREUSE4'', rgb 69 139 0), (''CHOCOLATE'', rgb 210 105 30),
    (''CHOCOLATE1'', rgb 255 127 36), (''CHOCOLATE2'', rgb 238 118 33),
    (''CHOCOLATE3'', rgb 205 102 29), (''CHOCOLATE4'', rgb 139 69 19),
    (''COBALT'', rgb 61 89 171), (''COBALTGREEN'', rgb 61 145 64),
    (''COLDGREY'', rgb 128 138 135), (''CORAL'', rgb 255 127 80), (''CORAL1'', rgb 255 114 86),
    (''CORAL2'', rgb 238 106 80), (''CORAL3'', rgb 205 91 69), (''CORAL4'', rgb 139 62 47),
    (''CORNFLOWERBLUE'', rgb 100 149 237), (''CORNSILK1'', rgb 255 248 220),
    (''CORNSILK2'', rgb 238 232 205), (''CORNSILK3'', rgb 205 200 177),
    (''CORNSILK4'', rgb 139 136 120), (''CRIMSON'', rgb 220 20 60), (''CYAN2'', rgb 0 238 238),
    (''CYAN3'', rgb 0 205 205), (''CYAN4'', rgb 0 139 139), (''DARKGOLDENROD'', rgb 184 134 11),
    (''DARKGOLDENROD1'', rgb 255 185 15), (''DARKGOLDENROD2'', rgb 238 173 14),
    (''DARKGOLDENROD3'', rgb 205 149 12), (''DARKGOLDENROD4'', rgb 139 101 8),
    (''DARKGRAY'', rgb 169 169 169), (''DARKGREEN'', rgb 0 100 0),
    (''DARKKHAKI'', rgb 189 183 107), (''DARKOLIVEGREEN'', rgb 85 107 47),
    (''DARKOLIVEGREEN1'', rgb 202 255 112), (''DARKOLIVEGREEN2'', rgb 188 238 104),
    (''DARKOLIVEGREEN3'', rgb 162 205 90), (''DARKOLIVEGREEN4'', rgb 110 139 61),
    (''DARKORANGE'', rgb 255 140 0), (''DARKORANGE1'', rgb 255 127 0),
    (''DARKORANGE2'', rgb 238 118 0), (''DARKORANGE3'', rgb 205 102 0),
    (''DARKORANGE4'', rgb 139 69 0), (''DARKORCHID'', rgb 153 50 204),
    (''DARKORCHID1'', rgb 191 62 255), (''DARKORCHID2'', rgb 178 58 238),
    (''DARKORCHID3'', rgb 154 50 205), (''DARKORCHID4'', rgb 104 34 139),
    (''DARKSALMON'', rgb 233 150 122), (''DARKSEAGREEN'', rgb 143 188 143),
    (''DARKSEAGREEN1'', rgb 193 255 193), (''DARKSEAGREEN2'', rgb 180 238 180),
    (''DARKSEAGREEN3'', rgb 155 205 155), (''DARKSEAGREEN4'', rgb 105 139 105),
    (''DARKSLATEBLUE'', rgb 72 61 139), (''DARKSLATEGRAY'', rgb 47 79 79),
    (''DARKSLATEGRAY1'', rgb 151 255 255), (''DARKSLATEGRAY2'', rgb 141 238 238),
    (''DARKSLATEGRAY3'', rgb 121 205 205), (''DARKSLATEGRAY4'', rgb 82 139 139),
    (''DARKTURQUOISE'', rgb 0 206 209), (''DARKVIOLET'', rgb 148 0 211),
    (''DEEPPINK1'', rgb 255 20 147), (''DEEPPINK2'', rgb 238 18 137),
    (''DEEPPINK3'', rgb 205 16 118), (''DEEPPINK4'', rgb 139 10 80),
    (''DEEPSKYBLUE1'', rgb 0 191 255), (''DEEPSKYBLUE2'', rgb 0 178 238),
    (''DEEPSKYBLUE3'', rgb 0 154 205), (''DEEPSKYBLUE4'', rgb 0 104 139),
    (''DIMGRAY'', rgb 105 105 105), (''DODGERBLUE1'', rgb 30 144 255),
    (''DODGERBLUE2'', rgb 28 134 238), (''DODGERBLUE3'', rgb 24 116 205),
    (''DODGERBLUE4'', rgb 16 78 139), (''EGGSHELL'', rgb 252 230 201),
    (''EMERALDGREEN'', rgb 0 201 87), (''FIREBRICK'', rgb 178 34 34),
    (''FIREBRICK1'', rgb 255 48 48), (''FIREBRICK2'', rgb 238 44 44),
    (''FIREBRICK3'', rgb 205 38 38), (''FIREBRICK4'', rgb 139 26 26),
    (''FLESH'', rgb 255 125 64), (''FLORALWHITE'', rgb 255 250 240),
    (''FORESTGREEN'', rgb 34 139 34), (''GAINSBORO'', rgb 220 220 220),
    (''GHOSTWHITE'', rgb 248 248 255), (''GOLD1'', rgb 255 215 0), (''GOLD2'', rgb 238 201 0),
    (''GOLD3'', rgb 205 173 0), (''GOLD4'', rgb 139 117 0), (''GOLDENROD'', rgb 218 165 32),
    (''GOLDENROD1'', rgb 255 193 37), (''GOLDENROD2'', rgb 238 180 34),
    (''GOLDENROD3'', rgb 205 155 29), (''GOLDENROD4'', rgb 139 105 20),
    (''GRAY'', rgb 128 128 128), (''GRAY1'', rgb 3 3 3), (''GRAY10'', rgb 26 26 26),
    (''GRAY11'', rgb 28 28 28), (''GRAY12'', rgb 31 31 31), (''GRAY13'', rgb 33 33 33),
    (''GRAY14'', rgb 36 36 36), (''GRAY15'', rgb 38 38 38), (''GRAY16'', rgb 41 41 41),
    (''GRAY17'', rgb 43 43 43), (''GRAY18'', rgb 46 46 46), (''GRAY19'', rgb 48 48 48),
    (''GRAY2'', rgb 5 5 5), (''GRAY20'', rgb 51 51 51), (''GRAY21'', rgb 54 54 54),
    (''GRAY22'', rgb 56 56 56), (''GRAY23'', rgb 59 59 59), (''GRAY24'', rgb 61 61 61),
    (''GRAY25'', rgb 64 64 64), (''GRAY26'', rgb 66 66 66), (''GRAY27'', rgb 69 69 69),
    (''GRAY28'', rgb 71 71 71), (''GRAY29'', rgb 74 74 74), (''GRAY3'', rgb 8 8 8),
    (''GRAY30'', rgb 77 77 77), (''GRAY31'', rgb 79 79 79), (''GRAY32'', rgb 82 82 82),
    (''GRAY33'', rgb 84 84 84), (''GRAY34'', rgb 87 87 87), (''GRAY35'', rgb 89 89 89),
    (''GRAY36'', rgb 92 92 92), (''GRAY37'', rgb 94 94 94), (''GRAY38'', rgb 97 97 97),
    (''GRAY39'', rgb 99 99 99), (''GRAY4'', rgb 10 10 10), (''GRAY40'', rgb 102 102 102),
    (''GRAY42'', rgb 107 107 107), (''GRAY43'', rgb 110 110 110), (''GRAY44'', rgb 112 112 112),
    (''GRAY45'', rgb 115 115 115), (''GRAY46'', rgb 117 117 117), (''GRAY47'', rgb 120 120 120),
    (''GRAY48'', rgb 122 122 122), (''GRAY49'', rgb 125 125 125), (''GRAY5'', rgb 13 13 13),
    (''GRAY50'', rgb 127 127 127), (''GRAY51'', rgb 130 130 130), (''GRAY52'', rgb 133 133 133),
    (''GRAY53'', rgb 135 135 135), (''GRAY54'', rgb 138 138 138), (''GRAY55'', rgb 140 140 140),
    (''GRAY56'', rgb 143 143 143), (''GRAY57'', rgb 145 145 145), (''GRAY58'', rgb 148 148 148),
    (''GRAY59'', rgb 150 150 150), (''GRAY6'', rgb 15 15 15), (''GRAY60'', rgb 153 153 153),
    (''GRAY61'', rgb 156 156 156), (''GRAY62'', rgb 158 158 158), (''GRAY63'', rgb 161 161 161),
    (''GRAY64'', rgb 163 163 163), (''GRAY65'', rgb 166 166 166), (''GRAY66'', rgb 168 168 168),
    (''GRAY67'', rgb 171 171 171), (''GRAY68'', rgb 173 173 173), (''GRAY69'', rgb 176 176 176),
    (''GRAY7'', rgb 18 18 18), (''GRAY70'', rgb 179 179 179), (''GRAY71'', rgb 181 181 181),
    (''GRAY72'', rgb 184 184 184), (''GRAY73'', rgb 186 186 186), (''GRAY74'', rgb 189 189 189),
    (''GRAY75'', rgb 191 191 191), (''GRAY76'', rgb 194 194 194), (''GRAY77'', rgb 196 196 196),
    (''GRAY78'', rgb 199 199 199), (''GRAY79'', rgb 201 201 201), (''GRAY8'', rgb 20 20 20),
    (''GRAY80'', rgb 204 204 204), (''GRAY81'', rgb 207 207 207), (''GRAY82'', rgb 209 209 209),
    (''GRAY83'', rgb 212 212 212), (''GRAY84'', rgb 214 214 214), (''GRAY85'', rgb 217 217 217),
    (''GRAY86'', rgb 219 219 219), (''GRAY87'', rgb 222 222 222), (''GRAY88'', rgb 224 224 224),
    (''GRAY89'', rgb 227 227 227), (''GRAY9'', rgb 23 23 23), (''GRAY90'', rgb 229 229 229),
    (''GRAY91'', rgb 232 232 232), (''GRAY92'', rgb 235 235 235), (''GRAY93'', rgb 237 237 237),
    (''GRAY94'', rgb 240 240 240), (''GRAY95'', rgb 242 242 242), (''GRAY97'', rgb 247 247 247),
    (''GRAY98'', rgb 250 250 250), (''GRAY99'', rgb 252 252 252), (''GREEN'', rgb 0 128 0),
    (''GREEN1'', rgb 0 255 0), (''GREEN2'', rgb 0 238 0), (''GREEN3'', rgb 0 205 0),
    (''GREEN4'', rgb 0 139 0), (''GREENYELLOW'', rgb 173 255 47),
    (''HONEYDEW1'', rgb 240 255 240), (''HONEYDEW2'', rgb 224 238 224),
    (''HONEYDEW3'', rgb 193 205 193), (''HONEYDEW4'', rgb 131 139 131),
    (''HOTPINK'', rgb 255 105 180), (''HOTPINK1'', rgb 255 110 180),
    (''HOTPINK2'', rgb 238 106 167), (''HOTPINK3'', rgb 205 96 144),
    (''HOTPINK4'', rgb 139 58 98), (''INDIANRED'', rgb 205 92 92),
    (''INDIANRED1'', rgb 255 106 106), (''INDIANRED2'', rgb 238 99 99),
    (''INDIANRED3'', rgb 205 85 85), (''INDIANRED4'', rgb 139 58 58), (''INDIGO'', rgb 75 0 130),
    (''IVORY1'', rgb 255 255 240), (''IVORY2'', rgb 238 238 224), (''IVORY3'', rgb 205 205 193),
    (''IVORY4'', rgb 139 139 131), (''IVORYBLACK'', rgb 41 36 33), (''KHAKI'', rgb 240 230 140),
    (''KHAKI1'', rgb 255 246 143), (''KHAKI2'', rgb 238 230 133), (''KHAKI3'', rgb 205 198 115),
    (''KHAKI4'', rgb 139 134 78), (''LAVENDER'', rgb 230 230 250),
    (''LAVENDERBLUSH1'', rgb 255 240 245), (''LAVENDERBLUSH2'', rgb 238 224 229),
    (''LAVENDERBLUSH3'', rgb 205 193 197), (''LAVENDERBLUSH4'', rgb 139 131 134),
    (''LAWNGREEN'', rgb 124 252 0), (''LEMONCHIFFON1'', rgb 255 250 205),
    (''LEMONCHIFFON2'', rgb 238 233 191), (''LEMONCHIFFON3'', rgb 205 201 165),
    (''LEMONCHIFFON4'', rgb 139 137 112), (''LIGHTBLUE'', rgb 173 216 230),
    (''LIGHTBLUE1'', rgb 191 239 255), (''LIGHTBLUE2'', rgb 178 223 238),
    (''LIGHTBLUE3'', rgb 154 192 205), (''LIGHTBLUE4'', rgb 104 131 139),
    (''LIGHTCORAL'', rgb 240 128 128), (''LIGHTCYAN1'', rgb 224 255 255),
    (''LIGHTCYAN2'', rgb 209 238 238), (''LIGHTCYAN3'', rgb 180 205 205),
    (''LIGHTCYAN4'', rgb 122 139 139), (''LIGHTGOLDENROD1'', rgb 255 236 139),
    (''LIGHTGOLDENROD2'', rgb 238 220 130), (''LIGHTGOLDENROD3'', rgb 205 190 112),
    (''LIGHTGOLDENROD4'', rgb 139 129 76), (''LIGHTGOLDENRODYELLOW'', rgb 250 250 210),
    (''LIGHTGREY'', rgb 211 211 211), (''LIGHTPINK'', rgb 255 182 193),
    (''LIGHTPINK1'', rgb 255 174 185), (''LIGHTPINK2'', rgb 238 162 173),
    (''LIGHTPINK3'', rgb 205 140 149), (''LIGHTPINK4'', rgb 139 95 101),
    (''LIGHTSALMON1'', rgb 255 160 122), (''LIGHTSALMON2'', rgb 238 149 114),
    (''LIGHTSALMON3'', rgb 205 129 98), (''LIGHTSALMON4'', rgb 139 87 66),
    (''LIGHTSEAGREEN'', rgb 32 178 170), (''LIGHTSKYBLUE'', rgb 135 206 250),
    (''LIGHTSKYBLUE1'', rgb 176 226 255), (''LIGHTSKYBLUE2'', rgb 164 211 238),
    (''LIGHTSKYBLUE3'', rgb 141 182 205), (''LIGHTSKYBLUE4'', rgb 96 123 139),
    (''LIGHTSLATEBLUE'', rgb 132 112 255), (''LIGHTSLATEGRAY'', rgb 119 136 153),
    (''LIGHTSTEELBLUE'', rgb 176 196 222), (''LIGHTSTEELBLUE1'', rgb 202 225 255),
    (''LIGHTSTEELBLUE2'', rgb 188 210 238), (''LIGHTSTEELBLUE3'', rgb 162 181 205),
    (''LIGHTSTEELBLUE4'', rgb 110 123 139), (''LIGHTYELLOW1'', rgb 255 255 224),
    (''LIGHTYELLOW2'', rgb 238 238 209), (''LIGHTYELLOW3'', rgb 205 205 180),
    (''LIGHTYELLOW4'', rgb 139 139 122), (''LIMEGREEN'', rgb 50 205 50),
    (''LINEN'', rgb 250 240 230), (''MAGENTA'', rgb 255 0 255), (''MAGENTA2'', rgb 238 0 238),
    (''MAGENTA3'', rgb 205 0 205), (''MAGENTA4'', rgb 139 0 139),
    (''MANGANESEBLUE'', rgb 3 168 158), (''MAROON'', rgb 128 0 0), (''MAROON1'', rgb 255 52 179),
    (''MAROON2'', rgb 238 48 167), (''MAROON3'', rgb 205 41 144), (''MAROON4'', rgb 139 28 98),
    (''MEDIUMORCHID'', rgb 186 85 211), (''MEDIUMORCHID1'', rgb 224 102 255),
    (''MEDIUMORCHID2'', rgb 209 95 238), (''MEDIUMORCHID3'', rgb 180 82 205),
    (''MEDIUMORCHID4'', rgb 122 55 139), (''MEDIUMPURPLE'', rgb 147 112 219),
    (''MEDIUMPURPLE1'', rgb 171 130 255), (''MEDIUMPURPLE2'', rgb 159 121 238),
    (''MEDIUMPURPLE3'', rgb 137 104 205), (''MEDIUMPURPLE4'', rgb 93 71 139),
    (''MEDIUMSEAGREEN'', rgb 60 179 113), (''MEDIUMSLATEBLUE'', rgb 123 104 238),
    (''MEDIUMSPRINGGREEN'', rgb 0 250 154), (''MEDIUMTURQUOISE'', rgb 72 209 204),
    (''MEDIUMVIOLETRED'', rgb 199 21 133), (''MELON'', rgb 227 168 105),
    (''MIDNIGHTBLUE'', rgb 25 25 112), (''MINT'', rgb 189 252 201),
    (''MINTCREAM'', rgb 245 255 250), (''MISTYROSE1'', rgb 255 228 225),
    (''MISTYROSE2'', rgb 238 213 210), (''MISTYROSE3'', rgb 205 183 181),
    (''MISTYROSE4'', rgb 139 125 123), (''MOCCASIN'', rgb 255 228 181),
    (''NAVAJOWHITE1'', rgb 255 222 173), (''NAVAJOWHITE2'', rgb 238 207 161),
    (''NAVAJOWHITE3'', rgb 205 179 139), (''NAVAJOWHITE4'', rgb 139 121 94),
    (''NAVY'', rgb 0 0 128), (''OLDLACE'', rgb 253 245 230), (''OLIVE'', rgb 128 128 0),
    (''OLIVEDRAB'', rgb 107 142 35), (''OLIVEDRAB1'', rgb 192 255 62),
    (''OLIVEDRAB2'', rgb 179 238 58), (''OLIVEDRAB3'', rgb 154 205 50),
    (''OLIVEDRAB4'', rgb 105 139 34), (''ORANGE'', rgb 255 128 0), (''ORANGE1'', rgb 255 165 0),
    (''ORANGE2'', rgb 238 154 0), (''ORANGE3'', rgb 205 133 0), (''ORANGE4'', rgb 139 90 0),
    (''ORANGERED1'', rgb 255 69 0), (''ORANGERED2'', rgb 238 64 0),
    (''ORANGERED3'', rgb 205 55 0), (''ORANGERED4'', rgb 139 37 0),
    (''ORCHID'', rgb 218 112 214), (''ORCHID1'', rgb 255 131 250),
    (''ORCHID2'', rgb 238 122 233), (''ORCHID3'', rgb 205 105 201),
    (''ORCHID4'', rgb 139 71 137), (''PALEGOLDENROD'', rgb 238 232 170),
    (''PALEGREEN'', rgb 152 251 152), (''PALEGREEN1'', rgb 154 255 154),
    (''PALEGREEN2'', rgb 144 238 144), (''PALEGREEN3'', rgb 124 205 124),
    (''PALEGREEN4'', rgb 84 139 84), (''PALETURQUOISE1'', rgb 187 255 255),
    (''PALETURQUOISE2'', rgb 174 238 238), (''PALETURQUOISE3'', rgb 150 205 205),
    (''PALETURQUOISE4'', rgb 102 139 139), (''PALEVIOLETRED'', rgb 219 112 147),
    (''PALEVIOLETRED1'', rgb 255 130 171), (''PALEVIOLETRED2'', rgb 238 121 159),
    (''PALEVIOLETRED3'', rgb 205 104 137), (''PALEVIOLETRED4'', rgb 139 71 93),
    (''PAPAYAWHIP'', rgb 255 239 213), (''PEACHPUFF1'', rgb 255 218 185),
    (''PEACHPUFF2'', rgb 238 203 173), (''PEACHPUFF3'', rgb 205 175 149),
    (''PEACHPUFF4'', rgb 139 119 101), (''PEACOCK'', rgb 51 161 201),
    (''PINK'', rgb 255 192 203), (''PINK1'', rgb 255 181 197), (''PINK2'', rgb 238 169 184),
    (''PINK3'', rgb 205 145 158), (''PINK4'', rgb 139 99 108), (''PLUM'', rgb 221 160 221),
    (''PLUM1'', rgb 255 187 255), (''PLUM2'', rgb 238 174 238), (''PLUM3'', rgb 205 150 205),
    (''PLUM4'', rgb 139 102 139), (''POWDERBLUE'', rgb 176 224 230), (''PURPLE'', rgb 128 0 128),
    (''PURPLE1'', rgb 155 48 255), (''PURPLE2'', rgb 145 44 238), (''PURPLE3'', rgb 125 38 205),
    (''PURPLE4'', rgb 85 26 139), (''RASPBERRY'', rgb 135 38 87), (''RAWSIENNA'', rgb 199 97 20),
    (''RED1'', rgb 255 0 0), (''RED2'', rgb 238 0 0), (''RED3'', rgb 205 0 0),
    (''RED4'', rgb 139 0 0), (''ROSYBROWN'', rgb 188 143 143), (''ROSYBROWN1'', rgb 255 193 193),
    (''ROSYBROWN2'', rgb 238 180 180), (''ROSYBROWN3'', rgb 205 155 155),
    (''ROSYBROWN4'', rgb 139 105 105), (''ROYALBLUE'', rgb 65 105 225),
    (''ROYALBLUE1'', rgb 72 118 255), (''ROYALBLUE2'', rgb 67 110 238),
    (''ROYALBLUE3'', rgb 58 95 205), (''ROYALBLUE4'', rgb 39 64 139),
    (''SALMON'', rgb 250 128 114), (''SALMON1'', rgb 255 140 105), (''SALMON2'', rgb 238 130 98),
    (''SALMON3'', rgb 205 112 84), (''SALMON4'', rgb 139 76 57),
    (''SANDYBROWN'', rgb 244 164 96), (''SAPGREEN'', rgb 48 128 20),
    (''SEAGREEN1'', rgb 84 255 159), (''SEAGREEN2'', rgb 78 238 148),
    (''SEAGREEN3'', rgb 67 205 128), (''SEAGREEN4'', rgb 46 139 87),
    (''SEASHELL1'', rgb 255 245 238), (''SEASHELL2'', rgb 238 229 222),
    (''SEASHELL3'', rgb 205 197 191), (''SEASHELL4'', rgb 139 134 130),
    (''SEPIA'', rgb 94 38 18), (''SGIBEET'', rgb 142 56 142),
    (''SGIBRIGHTGRAY'', rgb 197 193 170), (''SGICHARTREUSE'', rgb 113 198 113),
    (''SGIDARKGRAY'', rgb 85 85 85), (''SGIGRAY12'', rgb 30 30 30),
    (''SGIGRAY16'', rgb 40 40 40), (''SGIGRAY32'', rgb 81 81 81), (''SGIGRAY36'', rgb 91 91 91),
    (''SGIGRAY52'', rgb 132 132 132), (''SGIGRAY56'', rgb 142 142 142),
    (''SGIGRAY72'', rgb 183 183 183), (''SGIGRAY76'', rgb 193 193 193),
    (''SGIGRAY92'', rgb 234 234 234), (''SGIGRAY96'', rgb 244 244 244),
    (''SGILIGHTBLUE'', rgb 125 158 192), (''SGILIGHTGRAY'', rgb 170 170 170),
    (''SGIOLIVEDRAB'', rgb 142 142 56), (''SGISALMON'', rgb 198 113 113),
    (''SGISLATEBLUE'', rgb 113 113 198), (''SGITEAL'', rgb 56 142 142),
    (''SIENNA'', rgb 160 82 45), (''SIENNA1'', rgb 255 130 71), (''SIENNA2'', rgb 238 121 66),
    (''SIENNA3'', rgb 205 104 57), (''SIENNA4'', rgb 139 71 38), (''SILVER'', rgb 192 192 192),
    (''SKYBLUE'', rgb 135 206 235), (''SKYBLUE1'', rgb 135 206 255),
    (''SKYBLUE2'', rgb 126 192 238), (''SKYBLUE3'', rgb 108 166 205),
    (''SKYBLUE4'', rgb 74 112 139), (''SLATEBLUE'', rgb 106 90 205),
    (''SLATEBLUE1'', rgb 131 111 255), (''SLATEBLUE2'', rgb 122 103 238),
    (''SLATEBLUE3'', rgb 105 89 205), (''SLATEBLUE4'', rgb 71 60 139),
    (''SLATEGRAY'', rgb 112 128 144), (''SLATEGRAY1'', rgb 198 226 255),
    (''SLATEGRAY2'', rgb 185 211 238), (''SLATEGRAY3'', rgb 159 182 205),
    (''SLATEGRAY4'', rgb 108 123 139), (''SNOW1'', rgb 255 250 250),
    (''SNOW2'', rgb 238 233 233), (''SNOW3'', rgb 205 201 201), (''SNOW4'', rgb 139 137 137),
    (''SPRINGGREEN'', rgb 0 255 127), (''SPRINGGREEN1'', rgb 0 238 118),
    (''SPRINGGREEN2'', rgb 0 205 102), (''SPRINGGREEN3'', rgb 0 139 69),
    (''STEELBLUE'', rgb 70 130 180), (''STEELBLUE1'', rgb 99 184 255),
    (''STEELBLUE2'', rgb 92 172 238), (''STEELBLUE3'', rgb 79 148 205),
    (''STEELBLUE4'', rgb 54 100 139), (''TAN'', rgb 210 180 140), (''TAN1'', rgb 255 165 79),
    (''TAN2'', rgb 238 154 73), (''TAN3'', rgb 205 133 63), (''TAN4'', rgb 139 90 43),
    (''TEAL'', rgb 0 128 128), (''THISTLE'', rgb 216 191 216), (''THISTLE1'', rgb 255 225 255),
    (''THISTLE2'', rgb 238 210 238), (''THISTLE3'', rgb 205 181 205),
    (''THISTLE4'', rgb 139 123 139), (''TOMATO1'', rgb 255 99 71), (''TOMATO2'', rgb 238 92 66),
    (''TOMATO3'', rgb 205 79 57), (''TOMATO4'', rgb 139 54 38), (''TURQUOISE'', rgb 64 224 208),
    (''TURQUOISE1'', rgb 0 245 255), (''TURQUOISE2'', rgb 0 229 238),
    (''TURQUOISE3'', rgb 0 197 205), (''TURQUOISE4'', rgb 0 134 139),
    (''TURQUOISEBLUE'', rgb 0 199 140), (''VIOLET'', rgb 238 130 238),
    (''VIOLETRED'', rgb 208 32 144), (''VIOLETRED1'', rgb 255 62 150),
    (''VIOLETRED2'', rgb 238 58 140), (''VIOLETRED3'', rgb 205 50 120),
    (''VIOLETRED4'', rgb 139 34 82), (''WARMGREY'', rgb 128 128 105),
    (''WHEAT'', rgb 245 222 179), (''WHEAT1'', rgb 255 231 186), (''WHEAT2'', rgb 238 216 174),
    (''WHEAT3'', rgb 205 186 150), (''WHEAT4'', rgb 139 126 102), (''WHITE'', rgb 255 255 255),
    (''WHITESMOKE'', rgb 245 245 245), (''YELLOW1'', rgb 255 255 0),
    (''YELLOW2'', rgb 238 238 0), (''YELLOW3'', rgb 205 205 0), (''YELLOW4'', rgb 139 139 0)]"

text \<open>
  Modelled from the spec: the base class \<open>Enum\<close> of \<open>nikocraft/utils/enum.py\<close> is not
  among the sources. The table is a mapping from names to colours, a name bound by the
  last assignment to it in the class body; a lookup is by the exact name, and an unknown
  name fails with a not-found condition (for a class attribute, \<open>AttributeError\<close>).
\<close>

definition RGB_namespace :: "string \<rightharpoonup> RGBColor" where
  "RGB_namespace = foldl (\<lambda>ns (name, c). ns(name \<mapsto> c)) Map.empty RGB_body"

definition RGB_lookup :: "string \<Rightarrow> py_error + RGBColor" where
  "RGB_lookup name = (case RGB_namespace name of None \<Rightarrow> Inl AttributeError | Some c \<Rightarrow> Inr c)"

section \<open>The scene base class of \<open>nikocraft/window/scene.py\<close>\<close>

text \<open>
  Modelled from the spec: the declarations of \<open>Window\<close> (\<open>window.py\<close>), of \<open>Vec\<close>
  (\<open>vector2d.py\<close>) and of the surface, clock and application behind a window are not
  among the sources. They are kept as far as \<open>Scene\<close> reads them: a surface answers
  \<open>get_width()\<close> and \<open>get_height()\<close>, a window has a \<open>screen\<close>, an \<open>app\<close> with a
  \<open>logger\<close> and a \<open>clock\<close> with a \<open>delta_time\<close>, and \<open>Vec(x, y)\<close> is a vector of two
  coordinates.
\<close>

record Surface =
  get_width :: int
  get_height :: int

record 'l App =
  app_logger :: 'l

record Clock =
  delta_time :: pyfloat

record 'l Window =
  win_screen :: Surface
  win_app :: "'l App"
  win_clock :: Clock

datatype Vec = Vec int int

text \<open>
  The attributes of a \<open>Scene\<close>: \<open>window\<close>, \<open>args\<close>, \<open>screen_cache\<close> and the private
  \<open>_screen\<close> (here \<open>private_screen\<close>), which is a surface or \<open>None\<close>.
\<close>

record ('k, 'v, 'l) Scene =
  window :: "'l Window"
  args :: "'k \<rightharpoonup> 'v"
  screen_cache :: bool
  private_screen :: "Surface option"

text \<open>
  \<open>__init__(self, window, args=None)\<close>: an omitted \<open>args\<close> is \<open>None\<close>, and \<open>None\<close>
  makes a fresh empty dictionary.
\<close>

definition Scene_init :: "'l Window \<Rightarrow> ('k \<rightharpoonup> 'v) option \<Rightarrow> ('k, 'v, 'l) Scene" where
  "Scene_init window_arg args_arg =
     \<lparr>window = window_arg,
      args = (case args_arg of None \<Rightarrow> Map.empty | Some a \<Rightarrow> a),
      screen_cache = False,
      private_screen = None\<rparr>"

text \<open>The properties \<open>screen\<close>, \<open>logger\<close>, \<open>width\<close>, \<open>height\<close>, \<open>dimension\<close> and \<open>dt\<close>.\<close>

definition screen :: "('k, 'v, 'l) Scene \<Rightarrow> Surface option" where
  "screen self = (if screen_cache self then private_screen self else Some (win_screen (window self)))"

definition logger :: "('k, 'v, 'l) Scene \<Rightarrow> 'l" where
  "logger self = app_logger (win_app (window self))"

definition width :: "('k, 'v, 'l) Scene \<Rightarrow> int" where
  "width self = get_width (win_screen (window self))"

definition height :: "('k, 'v, 'l) Scene \<Rightarrow> int" where
  "height self = get_height (win_screen (window self))"

definition dimension :: "('k, 'v, 'l) Scene \<Rightarrow> Vec" where
  "dimension self = Vec (get_width (win_screen (window self))) (get_height (win_screen (window self)))"

definition dt :: "('k, 'v, 'l) Scene \<Rightarrow> pyfloat" where
  "dt self = delta_time (win_clock (window self))"

section \<open>Properties\<close>

lemma RGBColor_new_int:
  "RGBColor_new (PyInt r) (PyInt g) (PyInt b) = Inr \<lparr>red = r, green = g, blue = b\<rparr>"
  by (simp add: RGBColor_new_def and_then_def)

lemma upt_3: "[0 ..< 3] = [0, 1, 2]"
  by (simp add: upt_rec)

lemma clamp_eq:
  "clamp c = Inr \<lparr>red = clip (red c), green = clip (green c), blue = clip (blue c)\<rparr>"
  by (simp add: clamp_def list_of_def upt_3 clamp_body_def clip_def RGBColor_new_int Let_def)

lemma clip_idem: "clip (clip x) = clip x"
  by (simp add: clip_def)

text \<open>
  C5. For every colour \<open>c\<close>, \<open>c.clamp()\<close> returns a colour whose channels are those of
  \<open>c\<close>, each clipped on its own to the range from 0 to 255: a channel below 0 becomes 0,
  one above 255 becomes 255, one in range is unchanged. Clamping a clamped colour changes
  nothing, and \<open>Color(300, -10, 128).clamp()\<close> is \<open>Color(255, 0, 128)\<close>.
\<close>

theorem clamp_clips_each_channel:
  "clamp c = Inr \<lparr>red = clip (red c), green = clip (green c), blue = clip (blue c)\<rparr>
   \<and> clip x = (if x < 0 then 0 else if 255 < x then 255 else x)
   \<and> and_then (clamp c) clamp = clamp c
   \<and> clamp \<lparr>red = 300, green = - 10, blue = 128\<rparr> = Inr \<lparr>red = 255, green = 0, blue = 128\<rparr>"
  by (simp add: clamp_eq and_then_def clip_idem) (simp add: clip_def)

text \<open>
  C4. For every pair of colours \<open>a\<close> and \<open>b\<close>, each channel of \<open>a + b\<close> is the sum of
  the two corresponding channels clipped to the range from 0 to 255, and each channel of
  \<open>a - b\<close> is their difference clipped to that range; the three channels do not
  influence each other.
\<close>

theorem add_sub_clamp_channelwise:
  "add a b = Inr \<lparr>red = clip (red a + red b), green = clip (green a + green b),
                  blue = clip (blue a + blue b)\<rparr>
   \<and> sub a b = Inr \<lparr>red = clip (red a - red b), green = clip (green a - green b),
                    blue = clip (blue a - blue b)\<rparr>"
  by (simp add: add_def sub_def RGBColor_new_int and_then_def clamp_eq)

subsection \<open>Parsing and formatting hexadecimal\<close>

lemma scan_digits_Cons:
  "scan_digits prev (c # cs) =
     (if c = CHR ''_'' then (if prev = CHR ''_'' then None else scan_digits c cs)
      else if is_hex c
        then map_option (\<lambda>(ds, r). (c # ds, r)) (scan_digits c cs)
      else if prev = CHR ''_'' then None
      else Some ([], c # cs))"
  by (simp add: is_hex_def)

lemmas parse_defs = parse_int16_def strip_sign_def strip_prefix16_def scan_digits_Cons

lemma hex_range:
  "is_hex c \<longleftrightarrow> (48 \<le> (of_char c :: nat) \<and> (of_char c :: nat) \<le> 57)
     \<or> (97 \<le> (of_char c :: nat) \<and> (of_char c :: nat) \<le> 102)
     \<or> (65 \<le> (of_char c :: nat) \<and> (of_char c :: nat) \<le> 70)"
  unfolding is_hex_def digit_value_def Let_def by auto

lemma hex_simps:
  assumes "is_hex c"
  shows "\<not> py_isspace c" "c \<noteq> CHR ''+''" "c \<noteq> CHR ''-''" "c \<noteq> CHR ''_''"
    "c \<noteq> CHR ''x''" "c \<noteq> CHR ''X''" "c \<noteq> CHR ''#''"
  using assms unfolding hex_range py_isspace_def by auto

lemma space_simps:
  assumes "py_isspace c"
  shows "\<not> is_hex c" "c \<noteq> CHR ''+''" "c \<noteq> CHR ''-''" "c \<noteq> CHR ''_''" "c \<noteq> CHR ''0''"
  using assms unfolding hex_range py_isspace_def by auto

lemma sign_not_special:
  "\<not> is_hex CHR ''+''" "\<not> is_hex CHR ''-''" "\<not> is_hex CHR ''_''" "\<not> is_hex CHR ''x''" "\<not> is_hex CHR ''X''"
  "\<not> py_isspace CHR ''+''" "\<not> py_isspace CHR ''-''" "\<not> py_isspace CHR ''_''" "\<not> py_isspace CHR ''0''"
  "\<not> py_isspace CHR ''x''"  "\<not> py_isspace CHR ''X''"
  by (simp_all add: hex_range py_isspace_def)

lemma parse_int16_nil: "parse_int16 [] = Inl ValueError"
  by (simp add: parse_int16_def strip_sign_def strip_prefix16_def)

lemma parse_int16_one:
  "parse_int16 [a] = (if is_hex a then Inr (int (digit_value a)) else Inl ValueError)"
  by (auto simp: parse_defs sign_not_special hex_simps space_simps simp del: scan_digits.simps(2))

lemma parse_int16_two_hex:
  assumes "is_hex a"
  shows "parse_int16 [a, b] =
     (if is_hex b then Inr (int (digit_value a * 16 + digit_value b))
      else if py_isspace b then Inr (int (digit_value a))
      else Inl ValueError)"
  using assms
  by (auto simp: parse_defs sign_not_special hex_simps space_simps simp del: scan_digits.simps(2))


lemma parse_int16_two_space:
  assumes "py_isspace a"
  shows "parse_int16 [a, b] = (if is_hex b then Inr (int (digit_value b)) else Inl ValueError)"
  using assms
  by (auto simp: parse_defs sign_not_special hex_simps space_simps simp del: scan_digits.simps(2))

lemma parse_int16_two_plus:
  "parse_int16 [CHR ''+'', b] = (if is_hex b then Inr (int (digit_value b)) else Inl ValueError)"
  by (auto simp: parse_defs sign_not_special hex_simps space_simps simp del: scan_digits.simps(2))

lemma parse_int16_two_minus:
  "parse_int16 [CHR ''-'', b] = (if is_hex b then Inr (- int (digit_value b)) else Inl ValueError)"
  by (auto simp: parse_defs sign_not_special hex_simps space_simps simp del: scan_digits.simps(2))

lemma parse_int16_two_other:
  assumes "\<not> is_hex a" "\<not> py_isspace a" "a \<noteq> CHR ''+''" "a \<noteq> CHR ''-''"
  shows "parse_int16 [a, b] = Inl ValueError"
  using assms
  by (auto simp: parse_defs sign_not_special hex_simps space_simps simp del: scan_digits.simps(2))

lemma parse_int16_two_ok:
  "(\<exists>n. parse_int16 [a, b] = Inr n) \<longleftrightarrow> hex_group_ok [a, b]"
proof -
  consider (hex) "is_hex a" | (sp) "py_isspace a" | (plus) "a = CHR ''+''" | (minus) "a = CHR ''-''"
    | (other) "\<not> is_hex a" "\<not> py_isspace a" "a \<noteq> CHR ''+''" "a \<noteq> CHR ''-''"
    by blast
  then show ?thesis
  proof cases
    case hex
    then show ?thesis by (simp add: parse_int16_two_hex)
  next
    case sp
    then show ?thesis by (simp add: parse_int16_two_space space_simps)
  next
    case plus
    then show ?thesis by (simp add: parse_int16_two_plus sign_not_special)
  next
    case minus
    then show ?thesis by (simp add: parse_int16_two_minus sign_not_special)
  next
    case other
    then show ?thesis by (simp add: parse_int16_two_other)
  qed
qed

lemma parse_int16_only_ValueError: "parse_int16 s = Inl e \<Longrightarrow> e = ValueError"
  by (auto simp: parse_int16_def Let_def split: prod.splits list.splits if_splits option.splits)

lemma parse_int16_short_ok:
  assumes "length g \<le> 2"
  shows "(\<exists>n. parse_int16 g = Inr n) \<longleftrightarrow> hex_group_ok g"
proof -
  from assms consider "g = []" | a where "g = [a]" | a b where "g = [a, b]"
    by (cases g rule: hex_group_ok.cases) auto
  then show ?thesis
    by cases (simp_all add: parse_int16_nil parse_int16_one parse_int16_two_ok)
qed



lemma invalid_chars:
  "\<not> is_hex CHR ''?''" "\<not> py_isspace CHR ''?''"
  "is_hex CHR '' '' = False" "py_isspace CHR '' ''"
  by (simp_all add: hex_range py_isspace_def)

lemma to_ascii_low: "c < 127 \<Longrightarrow> to_ascii dec c = Some (char_of c)"
  by (simp add: to_ascii_def)

lemma reads_as_low: "c < 127 \<Longrightarrow> reads_as dec c = char_of c"
  by (simp add: reads_as_def to_ascii_def)

lemma reads_as_127: "reads_as dec 127 = CHR ''?''"
  by (simp add: reads_as_def to_ascii_def)

lemma char_of_neq:
  assumes "(of_char c :: nat) \<noteq> n mod 256"
  shows "char_of (n::nat) \<noteq> c"
proof
  assume "char_of n = c"
  then have "(of_char (char_of n) :: nat) = of_char c" by simp
  with assms show False by simp
qed

lemma del_invalid:
  "\<not> is_hex (char_of (127::nat))" "\<not> py_isspace (char_of (127::nat))"
  "char_of (127::nat) \<noteq> CHR ''+''" "char_of (127::nat) \<noteq> CHR ''-''"
  by (simp_all add: hex_range py_isspace_def char_of_neq)

lemma low_cases: "c < 128 \<Longrightarrow> c < 127 \<or> c = (127::nat)"
  by arith

lemma ascii_form_one: "hex_group_ok (ascii_form dec [a]) = hex_group_ok [reads_as dec a]"
proof (cases "a < 128")
  case True
  then show ?thesis
    using low_cases[OF True]
    by (auto simp: ascii_form_def reads_as_low reads_as_127 del_invalid invalid_chars)
next
  case False
  then show ?thesis
    by (auto simp: ascii_form_def reads_as_def split: option.splits)
qed


lemma ascii_form_two:
  "hex_group_ok (ascii_form dec [a, b]) = hex_group_ok [reads_as dec a, reads_as dec b]"
proof (cases "a < 128 \<and> b < 128")
  case True
  then have "a < 127 \<or> a = 127" "b < 127 \<or> b = 127" by arith+
  with True show ?thesis
    by (auto simp: ascii_form_def reads_as_low reads_as_127 del_invalid invalid_chars)
next
  case False
  then show ?thesis
    by (auto simp: ascii_form_def reads_as_def invalid_chars split: option.splits)
qed

lemma length_transform: "length (transform dec s) \<le> length s"
  by (induction s) (auto split: option.splits)

lemma length_ascii_form: "length (ascii_form dec s) \<le> length s"
  by (simp add: ascii_form_def length_transform)

lemma int_base16_only_ValueError: "int_base16 dec s = Inl e \<Longrightarrow> e = ValueError"
  unfolding int_base16_def by (rule parse_int16_only_ValueError)

lemma short_list_cases:
  assumes "length g \<le> 2"
  shows "g = [] \<or> (\<exists>a. g = [a]) \<or> (\<exists>a b. g = [a, b])"
proof (cases g)
  case Nil
  then show ?thesis by simp
next
  case (Cons a r)
  with assms show ?thesis by (cases r) auto
qed

lemma int_base16_short_ok:
  assumes "length g \<le> 2"
  shows "(\<exists>n. int_base16 dec g = Inr n) \<longleftrightarrow> hex_group_ok (map (reads_as dec) g)"
proof -
  have len: "length (ascii_form dec g) \<le> 2"
    using length_ascii_form[of dec g] assms by simp
  from short_list_cases[OF assms]
  have "hex_group_ok (ascii_form dec g) = hex_group_ok (map (reads_as dec) g)"
    by (auto simp: ascii_form_one ascii_form_two) (simp add: ascii_form_def)
  then show ?thesis
    unfolding int_base16_def using parse_int16_short_ok[OF len] by simp
qed

lemma str_of_literals: "str_of ''#'' = [35]" "str_of ''0x'' = [48, 120]"
  by (simp_all add: str_of_def)

lemma replace_single: "replace_str s [x] [] = filter (\<lambda>c. c \<noteq> x) s"
proof (induction s)
  case Nil
  show ?case by (subst replace_str.simps) simp
next
  case (Cons c s)
  show ?case by (subst replace_str.simps) (simp add: Cons.IH)
qed

lemma replace_0x: "replace_str s [48, 120] [] = delete_0x s"
proof (induction s rule: delete_0x.induct)
  case (1 a b r)
  then show ?case by (subst replace_str.simps) auto
qed ((subst replace_str.simps, simp)+)

lemma cleaned_eq: "cleaned s = delete_0x (filter (\<lambda>c. c \<noteq> 35) s)"
  by (simp add: cleaned_def str_of_literals replace_single replace_0x)

lemma delete_0x_absent: "\<not> contains_0x s \<Longrightarrow> delete_0x s = s"
  by (induction s rule: contains_0x.induct) auto

lemma delete_0x_subset: "set (delete_0x s) \<subseteq> set s"
  by (induction s rule: delete_0x.induct) auto

lemma cleaned_no_hash: "35 \<notin> set (cleaned s)"
  using delete_0x_subset[of "filter (\<lambda>c. c \<noteq> 35) s"] by (auto simp: cleaned_eq)

lemma filter_absent: "x \<notin> set s \<Longrightarrow> filter (\<lambda>c. c \<noteq> x) s = s"
  by (induction s) auto

lemma cleaned_fixed: "\<not> contains_0x s \<Longrightarrow> 35 \<notin> set s \<Longrightarrow> cleaned s = s"
  by (simp add: cleaned_eq delete_0x_absent filter_absent)

lemma no_x_no_0x: "120 \<notin> set s \<Longrightarrow> \<not> contains_0x s"
  by (induction s rule: contains_0x.induct) auto

lemma hexdigit_16:
  assumes "d < 16"
  shows "is_hex (hexdigit d)" "digit_value (hexdigit d) = d"
proof -
  from assms have d: "d = 0 \<or> d = 1 \<or> d = 2 \<or> d = 3 \<or> d = 4 \<or> d = 5 \<or> d = 6 \<or> d = 7
      \<or> d = 8 \<or> d = 9 \<or> d = 10 \<or> d = 11 \<or> d = 12 \<or> d = 13 \<or> d = 14 \<or> d = 15"
    by arith
  from d show "is_hex (hexdigit d)"
    by (auto simp: hexdigit_def hex_range)
  from d show "digit_value (hexdigit d) = d"
    by (auto simp: hexdigit_def digit_value_def)
qed

lemma format_02x_byte:
  assumes "0 \<le> n" "n \<le> 255"
  shows "format_02x n = [hexdigit (nat n div 16), hexdigit (nat n mod 16)]"
proof (cases "n < 16")
  case True
  then have lt: "nat n < 16" using assms by simp
  have "hex_digits (nat n) = [hexdigit (nat n)]"
    by (subst hex_digits.simps) (simp add: lt)
  moreover have "hexdigit 0 = CHR ''0''" by (simp add: hexdigit_def)
  ultimately show ?thesis using assms lt by (simp add: format_02x_def)
next
  case False
  then have lt: "nat n div 16 < 16" and ge: "\<not> nat n < 16" using assms by auto
  have "hex_digits (nat n) = hex_digits (nat n div 16) @ [hexdigit (nat n mod 16)]"
    using ge by (subst hex_digits.simps) simp
  also have "hex_digits (nat n div 16) = [hexdigit (nat n div 16)]"
    using lt by (subst hex_digits.simps) simp
  finally show ?thesis using assms by (simp add: format_02x_def)
qed

lemma format_two_digit_hex:
  assumes "0 \<le> n" "n \<le> 255"
  shows "format_02x n = two_digit_hex n"
  using assms
  by (simp add: format_02x_byte two_digit_hex_def hexdigit_def nat_div_distrib nat_mod_distrib)


lemma ascii_form_str_of:
  assumes "list_all (\<lambda>c. (of_char c :: nat) < 128) cs"
  shows "ascii_form dec (str_of cs) = cs"
proof -
  have "list_all (\<lambda>c. c < 128) (str_of cs)"
    using assms by (simp add: str_of_def list_all_iff)
  moreover have "map char_of (str_of cs) = cs"
    by (simp add: str_of_def comp_def)
  ultimately show ?thesis by (simp add: ascii_form_def)
qed

lemma hexdigit_ascii:
  assumes "d < 16"
  shows "(of_char (hexdigit d) :: nat) < 128" "(of_char (hexdigit d) :: nat) \<noteq> 35"
    "(of_char (hexdigit d) :: nat) \<noteq> 120" "35 \<noteq> (of_char (hexdigit d) :: nat)"
    "120 \<noteq> (of_char (hexdigit d) :: nat)"
  using hexdigit_16(1)[OF assms] unfolding hex_range by auto

lemma int_base16_byte:
  assumes "0 \<le> n" "n \<le> 255"
  shows "int_base16 dec (str_of [hexdigit (nat n div 16), hexdigit (nat n mod 16)]) = Inr n"
proof -
  have a: "nat n div 16 < 16" and b: "nat n mod 16 < 16" using assms by auto
  have "int (nat n div 16 * 16 + nat n mod 16) = n" using assms by simp
  moreover have "ascii_form dec (str_of [hexdigit (nat n div 16), hexdigit (nat n mod 16)])
      = [hexdigit (nat n div 16), hexdigit (nat n mod 16)]"
    using hexdigit_ascii(1)[OF a] hexdigit_ascii(1)[OF b] by (intro ascii_form_str_of) simp
  ultimately show ?thesis
    using hexdigit_16[OF a] hexdigit_16[OF b]
    by (simp add: int_base16_def parse_int16_two_hex)
qed

lemma from_hex_hex:
  assumes "0 \<le> red c" "red c \<le> 255" "0 \<le> green c" "green c \<le> 255"
    "0 \<le> blue c" "blue c \<le> 255"
  shows "from_hex dec (hex c) = Inr (c :: RGBColor)"
proof -
  let ?body = "format_02x (red c) @ format_02x (green c) @ format_02x (blue c)"
  have lt: "nat (red c) div 16 < 16" "nat (red c) mod 16 < 16"
    "nat (green c) div 16 < 16" "nat (green c) mod 16 < 16"
    "nat (blue c) div 16 < 16" "nat (blue c) mod 16 < 16"
    using assms by auto
  have body: "?body = [hexdigit (nat (red c) div 16), hexdigit (nat (red c) mod 16),
      hexdigit (nat (green c) div 16), hexdigit (nat (green c) mod 16),
      hexdigit (nat (blue c) div 16), hexdigit (nat (blue c) mod 16)]"
    using assms by (simp add: format_02x_byte)
  have nohash: "35 \<notin> set (str_of ?body)" and nox: "120 \<notin> set (str_of ?body)"
    unfolding body str_of_def
    by (simp_all add: hexdigit_ascii[OF lt(1)] hexdigit_ascii[OF lt(2)] hexdigit_ascii[OF lt(3)]
      hexdigit_ascii[OF lt(4)] hexdigit_ascii[OF lt(5)] hexdigit_ascii[OF lt(6)])
  define B where "B = str_of ?body"
  have h: "hex c = 35 # B" by (simp add: hex_def str_of_def B_def)
  have f: "filter (\<lambda>c. c \<noteq> 35) (35 # B) = B"
    using filter_absent[OF nohash] by (simp add: B_def)
  have d: "delete_0x B = B"
    unfolding B_def by (rule delete_0x_absent[OF no_x_no_0x[OF nox]])
  have "cleaned (hex c) = B" by (simp only: cleaned_eq h f d)
  then have "cleaned (hex c) = str_of ?body" by (simp only: B_def)
  then have cl: "cleaned (hex c) = str_of [hexdigit (nat (red c) div 16), hexdigit (nat (red c) mod 16)]
      @ str_of [hexdigit (nat (green c) div 16), hexdigit (nat (green c) mod 16)]
      @ str_of [hexdigit (nat (blue c) div 16), hexdigit (nat (blue c) mod 16)]"
    by (simp add: body str_of_def)
  have sl: "slice (cleaned (hex c)) 0 2 = str_of [hexdigit (nat (red c) div 16), hexdigit (nat (red c) mod 16)]"
    "slice (cleaned (hex c)) 2 4 = str_of [hexdigit (nat (green c) div 16), hexdigit (nat (green c) mod 16)]"
    "slice (cleaned (hex c)) 4 6 = str_of [hexdigit (nat (blue c) div 16), hexdigit (nat (blue c) mod 16)]"
    by (simp_all add: cl slice_def str_of_def)
  show ?thesis
    using assms
    by (simp add: from_hex_def sl int_base16_byte and_then_def RGBColor_new_int)
qed

lemma hex_is_ascii: "is_hex a \<Longrightarrow> (of_char a :: nat) < 128"
  unfolding hex_range by auto

lemma int_base16_ascii_pair:
  assumes "is_hex a" "is_hex b"
  shows "int_base16 dec (str_of [a, b]) = Inr (int (digit_value a * 16 + digit_value b))"
proof -
  have "ascii_form dec (str_of [a, b]) = [a, b]"
    using hex_is_ascii[OF assms(1)] hex_is_ascii[OF assms(2)] by (intro ascii_form_str_of) simp
  then show ?thesis using assms by (simp add: int_base16_def parse_int16_two_hex)
qed

lemma int_base16_ascii_one:
  assumes "is_hex a"
  shows "int_base16 dec (str_of [a]) = Inr (int (digit_value a))"
proof -
  have "ascii_form dec (str_of [a]) = [a]"
    using hex_is_ascii[OF assms(1)] by (intro ascii_form_str_of) simp
  then show ?thesis using assms by (simp add: int_base16_def parse_int16_one)
qed

lemma int_base16_0x: "int_base16 dec (str_of ''0x'') = Inl ValueError"
proof -
  have "ascii_form dec (str_of ''0x'') = ''0x''"
    by (intro ascii_form_str_of) simp
  then show ?thesis
    by (simp add: int_base16_def parse_int16_two_hex hex_range py_isspace_def)
qed

lemma from_hex_12345: "from_hex dec (str_of ''12345'') = Inr \<lparr>red = 18, green = 52, blue = 5\<rparr>"
proof -
  have c: "cleaned (str_of ''12345'') = str_of ''12345''"
    by (simp add: cleaned_eq str_of_def)
  have sl: "slice (str_of ''12345'') 0 2 = str_of ''12''" "slice (str_of ''12345'') 2 4 = str_of ''34''"
    "slice (str_of ''12345'') 4 6 = str_of ''5''"
    by (simp_all add: slice_def str_of_def)
  have p: "int_base16 dec (str_of ''12'') = Inr 18" "int_base16 dec (str_of ''34'') = Inr 52"
    "int_base16 dec (str_of ''5'') = Inr 5"
    by (simp_all add: int_base16_ascii_pair int_base16_ascii_one hex_range digit_value_def)
  show ?thesis
    by (simp add: from_hex_def c sl p and_then_def RGBColor_new_int)
qed

lemma from_hex_six_digits:
  assumes "is_hex a" "is_hex b" "is_hex c" "is_hex d" "is_hex e" "is_hex f"
    and "cleaned s = str_of [a, b, c, d, e, f]"
  shows "from_hex dec s = Inr \<lparr>red = int (digit_value a * 16 + digit_value b),
    green = int (digit_value c * 16 + digit_value d),
    blue = int (digit_value e * 16 + digit_value f)\<rparr>"
proof -
  have sl: "slice (str_of [a, b, c, d, e, f]) 0 2 = str_of [a, b]"
    "slice (str_of [a, b, c, d, e, f]) 2 4 = str_of [c, d]"
    "slice (str_of [a, b, c, d, e, f]) 4 6 = str_of [e, f]"
    by (simp_all add: slice_def str_of_def)
  show ?thesis
    using assms by (simp add: from_hex_def sl int_base16_ascii_pair and_then_def RGBColor_new_int)
qed

lemma hex_f0: "is_hex CHR ''f''" "is_hex CHR ''0''" "is_hex CHR ''1''" "is_hex CHR ''2''"
  "is_hex CHR ''3''" "digit_value CHR ''f'' = 15" "digit_value CHR ''0'' = 0"
  "digit_value CHR ''1'' = 1" "digit_value CHR ''2'' = 2" "digit_value CHR ''3'' = 3"
  by (simp_all add: hex_range digit_value_def)

text \<open>
  C3. For all integers \<open>r\<close>, \<open>g\<close>, \<open>b\<close> between 0 and 255, the \<open>hex\<close> string of
  \<open>Color(r, g, b)\<close> is the character \<open>#\<close> followed by the three channels, each as
  exactly two lowercase hexadecimal digits padded with a zero; it has seven characters;
  and \<open>from_hex\<close> of that string is the colour again.
\<close>

theorem hex_two_digits_and_round_trip:
  assumes "0 \<le> r" "r \<le> 255" "0 \<le> g" "g \<le> 255" "0 \<le> b" "b \<le> 255"
  shows "RGBColor_new (PyInt r) (PyInt g) (PyInt b) = Inr \<lparr>red = r, green = g, blue = b\<rparr>
    \<and> hex \<lparr>red = r, green = g, blue = b\<rparr>
        = str_of (''#'' @ two_digit_hex r @ two_digit_hex g @ two_digit_hex b)
    \<and> length (hex \<lparr>red = r, green = g, blue = b\<rparr>) = 7
    \<and> from_hex dec (hex \<lparr>red = r, green = g, blue = b\<rparr>)
        = Inr \<lparr>red = r, green = g, blue = b\<rparr>
    \<and> eq_color \<lparr>red = r, green = g, blue = b\<rparr> \<lparr>red = r, green = g, blue = b\<rparr>"
proof -
  have "hex \<lparr>red = r, green = g, blue = b\<rparr>
      = str_of (''#'' @ two_digit_hex r @ two_digit_hex g @ two_digit_hex b)"
    using assms by (simp add: hex_def format_two_digit_hex)
  moreover from this have "length (hex \<lparr>red = r, green = g, blue = b\<rparr>) = 7"
    by (simp add: two_digit_hex_def str_of_def)
  moreover have "from_hex dec (hex \<lparr>red = r, green = g, blue = b\<rparr>)
      = Inr \<lparr>red = r, green = g, blue = b\<rparr>"
    using assms by (intro from_hex_hex) simp_all
  ultimately show ?thesis
    by (simp add: RGBColor_new_int eq_color_def)
qed

theorem hex_two_digits_and_round_trip_witness:
  "(0::int) \<le> 255 \<and> (255::int) \<le> 255 \<and> (0::int) \<le> 0 \<and> (0::int) \<le> 255
    \<and> (0::int) \<le> 10 \<and> (10::int) \<le> 255
    \<and> hex \<lparr>red = 255, green = 0, blue = 10\<rparr> = str_of ''#ff000a''
    \<and> from_hex (\<lambda>c. None) (hex \<lparr>red = 255, green = 0, blue = 10\<rparr>)
        = Inr \<lparr>red = 255, green = 0, blue = 10\<rparr>"
proof -
  have pre: "(0::int) \<le> 255" "(255::int) \<le> 255" "(0::int) \<le> 0" "(0::int) \<le> 255"
    "(0::int) \<le> 10" "(10::int) \<le> 255"
    by simp_all
  note t = hex_two_digits_and_round_trip [OF pre, of "\<lambda>c. None"]
  from t have "hex \<lparr>red = 255, green = 0, blue = 10\<rparr>
      = str_of (''#'' @ two_digit_hex 255 @ two_digit_hex 0 @ two_digit_hex 10)"
    by blast
  then have h: "hex \<lparr>red = 255, green = 0, blue = 10\<rparr> = str_of ''#ff000a''"
    by (simp add: two_digit_hex_def)
  from t have f: "from_hex (\<lambda>c. None) (hex \<lparr>red = 255, green = 0, blue = 10\<rparr>)
      = Inr \<lparr>red = 255, green = 0, blue = 10\<rparr>"
    by blast
  from h f show ?thesis by simp
qed

text \<open>
  C2, as the code has it. \<open>from_hex\<close> fails, and then with \<open>ValueError\<close>, exactly when
  one of the three slices \<open>[0:2]\<close>, \<open>[2:4]\<close>, \<open>[4:6]\<close> of the cleaned string is not
  accepted by the base-16 parse; a slice is accepted when it is one or two hexadecimal
  digits, one digit after a sign or a whitespace character, or one digit before a
  whitespace character, where Unicode whitespace counts as whitespace and a Unicode
  decimal digit as the digit of its value. In every other case it succeeds. It fails
  whenever the cleaned string has fewer than five characters.
\<close>

theorem from_hex_fails_iff_bad_slice:
  "(from_hex dec s = Inl ValueError \<longleftrightarrow>
      \<not> (hex_group_ok (map (reads_as dec) (slice (cleaned s) 0 2))
         \<and> hex_group_ok (map (reads_as dec) (slice (cleaned s) 2 4))
         \<and> hex_group_ok (map (reads_as dec) (slice (cleaned s) 4 6))))
   \<and> ((\<exists>c. from_hex dec s = Inr c) \<longleftrightarrow>
      hex_group_ok (map (reads_as dec) (slice (cleaned s) 0 2))
         \<and> hex_group_ok (map (reads_as dec) (slice (cleaned s) 2 4))
         \<and> hex_group_ok (map (reads_as dec) (slice (cleaned s) 4 6)))
   \<and> (length (cleaned s) < 5 \<longrightarrow> from_hex dec s = Inl ValueError)"
proof -
  let ?v = "cleaned s"
  have len: "length (slice ?v 0 2) \<le> 2" "length (slice ?v 2 4) \<le> 2" "length (slice ?v 4 6) \<le> 2"
    by (simp_all add: slice_def)
  note ok = int_base16_short_ok[OF len(1), of dec] int_base16_short_ok[OF len(2), of dec]
    int_base16_short_ok[OF len(3), of dec]
  have res: "\<And>g. int_base16 dec g = Inl ValueError \<or> (\<exists>n. int_base16 dec g = Inr n)"
  proof -
    fix g
    show "int_base16 dec g = Inl ValueError \<or> (\<exists>n. int_base16 dec g = Inr n)"
      using int_base16_only_ValueError[of dec g] by (cases "int_base16 dec g") auto
  qed
  have iff: "(\<exists>c. from_hex dec s = Inr c) \<longleftrightarrow>
      hex_group_ok (map (reads_as dec) (slice ?v 0 2))
      \<and> hex_group_ok (map (reads_as dec) (slice ?v 2 4))
      \<and> hex_group_ok (map (reads_as dec) (slice ?v 4 6))"
    unfolding ok[symmetric]
    using res[of "slice ?v 0 2"] res[of "slice ?v 2 4"] res[of "slice ?v 4 6"]
    by (auto simp: from_hex_def and_then_def RGBColor_new_int)
  have err: "from_hex dec s = Inl ValueError \<or> (\<exists>c. from_hex dec s = Inr c)"
    using res[of "slice ?v 0 2"] res[of "slice ?v 2 4"] res[of "slice ?v 4 6"]
    by (auto simp: from_hex_def and_then_def RGBColor_new_int)
  have short: "from_hex dec s = Inl ValueError" if "length ?v < 5"
  proof -
    from that have "slice ?v 4 6 = []" by (simp add: slice_def)
    then have "\<not> hex_group_ok (map (reads_as dec) (slice ?v 4 6))" by simp
    with iff err show ?thesis by auto
  qed
  from iff err short show ?thesis by auto
qed

theorem from_hex_fails_iff_bad_slice_witness:
  "length (cleaned (str_of ''1234'')) < 5
   \<and> from_hex (\<lambda>c. None) (str_of ''1234'') = Inl ValueError
   \<and> (\<exists>c. from_hex (\<lambda>c. if 0x660 \<le> c \<and> c \<le> 0x669 then Some (c - 0x660) else None)
          [0x661, 0x662, 0x663, 0x664, 0x665, 0x666] = Inr c)"
proof -
  have "length (cleaned (str_of ''1234'')) < 5"
    by (simp add: cleaned_eq str_of_def)
  with from_hex_fails_iff_bad_slice [of "\<lambda>c. None" "str_of ''1234''"]
  have 1: "from_hex (\<lambda>c. None) (str_of ''1234'') = Inl ValueError" by simp
  let ?dec = "\<lambda>c::nat. if 0x660 \<le> c \<and> c \<le> 0x669 then Some (c - 0x660) else None"
  have c: "cleaned [0x661, 0x662, 0x663, 0x664, 0x665, 0x666]
      = [0x661, 0x662, 0x663, 0x664, 0x665, 0x666]"
    by (simp add: cleaned_eq)
  have r: "hex_group_ok (map (reads_as ?dec) [0x661, 0x662])"
    "hex_group_ok (map (reads_as ?dec) [0x663, 0x664])"
    "hex_group_ok (map (reads_as ?dec) [0x665, 0x666])"
    by (simp_all add: reads_as_def to_ascii_def unicode_isspace_def hex_range)
  from from_hex_fails_iff_bad_slice [of ?dec "[0x661, 0x662, 0x663, 0x664, 0x665, 0x666]"] r
  have 2: "\<exists>c. from_hex ?dec [0x661, 0x662, 0x663, 0x664, 0x665, 0x666] = Inr c"
    by (simp add: c slice_def)
  from \<open>length (cleaned (str_of ''1234'')) < 5\<close> 1 2 show ?thesis by blast
qed

text \<open>
  The claim as stated fails: the cleaned string of \<open>12345\<close> has five characters, fewer
  than six, and \<open>from_hex\<close> succeeds on it; the third slice is the single digit \<open>5\<close>.
\<close>

theorem from_hex_five_characters_counterexample:
  "length (cleaned (str_of ''12345'')) < 6
   \<and> from_hex (\<lambda>c. None) (str_of ''12345'') = Inr \<lparr>red = 18, green = 52, blue = 5\<rparr>"
proof -
  have "length (cleaned (str_of ''12345'')) < 6"
    by (simp add: cleaned_eq str_of_def)
  with from_hex_12345[of "\<lambda>c. None"] show ?thesis by simp
qed

text \<open>
  C9, as the code has it. \<open>from_hex\<close> deletes every \<open>#\<close>, wherever it stands, and then,
  in one pass from left to right, every \<open>0x\<close> that does not overlap one deleted before;
  what it parses is that cleaned string. Whenever the cleaned string itself contains no
  \<open>0x\<close>, \<open>from_hex(s)\<close> equals \<open>from_hex\<close> of the cleaned string.
  \<open>from_hex("ff00#00")\<close> and \<open>from_hex("ff0x0000")\<close> succeed and equal
  \<open>from_hex("ff0000")\<close>, and so does \<open>from_hex("0x0xff0000")\<close>.
\<close>

theorem from_hex_of_cleaned:
  "cleaned s = delete_0x (filter (\<lambda>c. c \<noteq> 35) s)
   \<and> 35 \<notin> set (cleaned s)
   \<and> cleaned (s @ str_of ''#'' @ t) = cleaned (s @ t)
   \<and> cleaned (str_of ''0x'' @ t) = cleaned t
   \<and> (\<not> contains_0x (cleaned s) \<longrightarrow> from_hex dec s = from_hex dec (cleaned s))
   \<and> from_hex dec (str_of ''ff00#00'') = Inr \<lparr>red = 255, green = 0, blue = 0\<rparr>
   \<and> from_hex dec (str_of ''ff0x0000'') = Inr \<lparr>red = 255, green = 0, blue = 0\<rparr>
   \<and> from_hex dec (str_of ''0x0xff0000'') = Inr \<lparr>red = 255, green = 0, blue = 0\<rparr>
   \<and> from_hex dec (str_of ''ff0000'') = Inr \<lparr>red = 255, green = 0, blue = 0\<rparr>"
proof -
  have a: "cleaned (s @ str_of ''#'' @ t) = cleaned (s @ t)"
    by (simp add: cleaned_eq str_of_def)
  have a': "cleaned (str_of ''0x'' @ t) = cleaned t"
    by (simp add: cleaned_eq str_of_def)
  have b: "from_hex dec s = from_hex dec (cleaned s)" if "\<not> contains_0x (cleaned s)"
    using cleaned_fixed[OF that cleaned_no_hash] by (simp add: from_hex_def)
  have c: "cleaned (str_of ''ff00#00'') = str_of ''ff0000''"
    "cleaned (str_of ''ff0x0000'') = str_of ''ff0000''"
    "cleaned (str_of ''0x0xff0000'') = str_of ''ff0000''"
    "cleaned (str_of ''ff0000'') = str_of ''ff0000''"
    by (simp_all add: cleaned_eq str_of_def)
  have d: "from_hex dec (str_of ''ff00#00'') = Inr \<lparr>red = 255, green = 0, blue = 0\<rparr>"
    "from_hex dec (str_of ''ff0x0000'') = Inr \<lparr>red = 255, green = 0, blue = 0\<rparr>"
    "from_hex dec (str_of ''0x0xff0000'') = Inr \<lparr>red = 255, green = 0, blue = 0\<rparr>"
    "from_hex dec (str_of ''ff0000'') = Inr \<lparr>red = 255, green = 0, blue = 0\<rparr>"
    using from_hex_six_digits[OF hex_f0(1) hex_f0(1) hex_f0(2) hex_f0(2) hex_f0(2) hex_f0(2) c(1), of dec]
      from_hex_six_digits[OF hex_f0(1) hex_f0(1) hex_f0(2) hex_f0(2) hex_f0(2) hex_f0(2) c(2), of dec]
      from_hex_six_digits[OF hex_f0(1) hex_f0(1) hex_f0(2) hex_f0(2) hex_f0(2) hex_f0(2) c(3), of dec]
      from_hex_six_digits[OF hex_f0(1) hex_f0(1) hex_f0(2) hex_f0(2) hex_f0(2) hex_f0(2) c(4), of dec]
    by (simp_all add: hex_f0)
  from a a' b d cleaned_no_hash[of s] cleaned_eq[of s] show ?thesis by simp
qed

theorem from_hex_of_cleaned_witness:
  "\<not> contains_0x (cleaned (str_of ''ff0x0000''))
   \<and> from_hex (\<lambda>c. None) (str_of ''ff0x0000'')
     = from_hex (\<lambda>c. None) (cleaned (str_of ''ff0x0000''))"
proof -
  have "\<not> contains_0x (cleaned (str_of ''ff0x0000''))"
    by (simp add: cleaned_eq str_of_def)
  with from_hex_of_cleaned [of "str_of ''ff0x0000''" _ "\<lambda>c. None"] show ?thesis by blast
qed

text \<open>
  The claim as stated fails: deleting the \<open>0x\<close> in the middle of \<open>00xx112233\<close> leaves
  \<open>0x112233\<close>, which still begins with \<open>0x\<close>, and \<open>from_hex\<close> fails on the first slice
  \<open>0x\<close>; with the occurrences deleted (once more, or all of them) it succeeds.
\<close>

theorem from_hex_not_from_hex_of_cleaned_counterexample:
  "cleaned (str_of ''00xx112233'') = str_of ''0x112233''
   \<and> from_hex (\<lambda>c. None) (str_of ''00xx112233'') = Inl ValueError
   \<and> from_hex (\<lambda>c. None) (str_of ''0x112233'') = Inr \<lparr>red = 17, green = 34, blue = 51\<rparr>
   \<and> from_hex (\<lambda>c. None) (str_of ''112233'') = Inr \<lparr>red = 17, green = 34, blue = 51\<rparr>"
proof -
  have c: "cleaned (str_of ''00xx112233'') = str_of ''0x112233''"
    "cleaned (str_of ''0x112233'') = str_of ''112233''"
    "cleaned (str_of ''112233'') = str_of ''112233''"
    by (simp_all add: cleaned_eq str_of_def)
  have sl: "slice (str_of ''0x112233'') 0 2 = str_of ''0x''"
    by (simp add: slice_def str_of_def)
  have bad: "from_hex dec (str_of ''00xx112233'') = Inl ValueError" for dec
    by (simp add: from_hex_def c(1) sl int_base16_0x and_then_def)
  have good: "from_hex dec (str_of ''0x112233'') = Inr \<lparr>red = 17, green = 34, blue = 51\<rparr>"
    "from_hex dec (str_of ''112233'') = Inr \<lparr>red = 17, green = 34, blue = 51\<rparr>" for dec
    using from_hex_six_digits[OF hex_f0(3) hex_f0(3) hex_f0(4) hex_f0(4) hex_f0(5) hex_f0(5) c(2), of dec]
      from_hex_six_digits[OF hex_f0(3) hex_f0(3) hex_f0(4) hex_f0(4) hex_f0(5) hex_f0(5) c(3), of dec]
    by (simp_all add: hex_f0)
  from c(1) bad good show ?thesis by simp
qed

subsection \<open>The named colours\<close>

text \<open>
  Looking one name up in the namespace is a scan of the class body that remembers the
  last colour assigned to that name.
\<close>

lemma foldl_upd_at:
  "foldl (\<lambda>ns (name, c). ns(name \<mapsto> c)) m xs k
     = foldl (\<lambda>found (name, c). if k = name then Some c else found) (m k) xs"
  by (induction xs arbitrary: m) (auto split: prod.splits)

lemma scan_None_iff:
  "foldl (\<lambda>found (name, c). if k = name then Some c else found) init xs = None
     \<longleftrightarrow> init = None \<and> k \<notin> fst ` set xs"
  by (induction xs arbitrary: init) (auto split: prod.splits)

lemma RGB_lookup_scan:
  "RGB_lookup k =
     (case foldl (\<lambda>found (name, c). if k = name then Some c else found) None RGB_body of
        None \<Rightarrow> Inl AttributeError | Some c \<Rightarrow> Inr c)"
  by (simp add: RGB_lookup_def RGB_namespace_def foldl_upd_at)

lemma RGB_lookup_fails_iff:
  "RGB_lookup k = Inl AttributeError \<longleftrightarrow> k \<notin> fst ` set RGB_body"
  unfolding RGB_lookup_scan
  using scan_None_iff[of k None RGB_body]
  by (auto split: option.splits)

lemmas scan_rules = foldl_Cons foldl_Nil prod.case list.inject list.distinct char.inject
  if_False if_True simp_thms option.case

lemma RGB_BLACK: "RGB_lookup ''BLACK'' = Inr (rgb 0 0 0)"
  unfolding RGB_lookup_scan RGB_body_def by (simp only: scan_rules)

lemma RGB_WHITE: "RGB_lookup ''WHITE'' = Inr (rgb 255 255 255)"
  unfolding RGB_lookup_scan RGB_body_def by (simp only: scan_rules)

lemma RGB_FIREBRICK1: "RGB_lookup ''FIREBRICK1'' = Inr (rgb 255 48 48)"
  unfolding RGB_lookup_scan RGB_body_def by (simp only: scan_rules)

lemma RGB_NOTACOLOR: "RGB_lookup ''NOTACOLOR'' = Inl AttributeError"
  unfolding RGB_lookup_scan RGB_body_def by (simp only: scan_rules)

text \<open>
  C7. In the table of named colours, \<open>BLACK\<close> is \<open>Color(0, 0, 0)\<close>, \<open>WHITE\<close> is
  \<open>Color(255, 255, 255)\<close> and \<open>FIREBRICK1\<close> is \<open>Color(255, 48, 48)\<close>; a lookup fails
  with the not-found condition exactly for the names that no entry has, \<open>NOTACOLOR\<close>
  among them.
\<close>

theorem RGB_named_entries:
  "RGB_lookup ''BLACK'' = Inr \<lparr>red = 0, green = 0, blue = 0\<rparr>
   \<and> RGB_lookup ''WHITE'' = Inr \<lparr>red = 255, green = 255, blue = 255\<rparr>
   \<and> RGB_lookup ''FIREBRICK1'' = Inr \<lparr>red = 255, green = 48, blue = 48\<rparr>
   \<and> RGB_lookup ''NOTACOLOR'' = Inl AttributeError
   \<and> (RGB_lookup name = Inl AttributeError \<longleftrightarrow> name \<notin> fst ` set RGB_body)"
  using RGB_lookup_fails_iff[of name]
  by (simp add: RGB_BLACK RGB_WHITE RGB_FIREBRICK1 RGB_NOTACOLOR rgb_def)

subsection \<open>Scenes\<close>

text \<open>
  C8. A scene constructed without \<open>args\<close> (omitted, that is \<open>None\<close>) has an empty
  argument mapping; a scene constructed with an \<open>args\<close> mapping has that mapping.
\<close>

theorem Scene_init_args:
  "args (Scene_init w None) = Map.empty \<and> args (Scene_init w (Some m)) = m"
  by (simp add: Scene_init_def)

text \<open>
  C10. For every scene, \<open>width\<close>, \<open>height\<close> and \<open>dimension\<close> read the surface of the
  window, whatever \<open>screen_cache\<close> and the cached surface are; \<open>screen\<close> is the private
  cached surface when \<open>screen_cache\<close> is true and the surface of the window when it is
  false; a freshly constructed scene has \<open>screen_cache\<close> false, so its \<open>screen\<close> is the
  surface of the window.
\<close>

theorem Scene_accessors:
  "width s = get_width (win_screen (window s))
   \<and> height s = get_height (win_screen (window s))
   \<and> dimension s = Vec (get_width (win_screen (window s))) (get_height (win_screen (window s)))
   \<and> width (s\<lparr>screen_cache := c, private_screen := p\<rparr>) = width s
   \<and> height (s\<lparr>screen_cache := c, private_screen := p\<rparr>) = height s
   \<and> dimension (s\<lparr>screen_cache := c, private_screen := p\<rparr>) = dimension s
   \<and> logger (s\<lparr>screen_cache := c\<rparr>) = logger s
   \<and> dt (s\<lparr>screen_cache := c\<rparr>) = dt s
   \<and> screen (s\<lparr>screen_cache := True\<rparr>) = private_screen s
   \<and> screen (s\<lparr>screen_cache := False\<rparr>) = Some (win_screen (window s))
   \<and> screen_cache (Scene_init w a) = False
   \<and> screen (Scene_init w a) = Some (win_screen w)"
  by (simp add: width_def height_def dimension_def screen_def logger_def dt_def Scene_init_def)

subsection \<open>Doubles\<close>

lemma floor_log2_bounds:
  assumes "0 < q"
  shows "power_int 2 (floor_log2 q) \<le> q" "q < power_int 2 (floor_log2 q + 1)"
proof -
  have "power_int 2 (floor_log2 q) \<le> q \<and> q < power_int 2 (floor_log2 q + 1)"
  proof (cases "1 \<le> q")
    case True
    define n where "n = \<lfloor>q\<rfloor>"
    have n: "0 < n" using True by (simp add: n_def)
    define b where "b = bitlen n"
    from bitlen_bounds[OF n] have bb: "2 ^ nat (b - 1) \<le> n" "n < 2 ^ nat b" by (simp_all add: b_def)
    have b1: "1 \<le> b" using n by (auto simp: b_def bitlen_alt_def)
    have "of_int n \<le> q" by (simp add: n_def)
    moreover have "(2::rat) ^ nat (b - 1) \<le> of_int n"
      using of_int_le_iff[of "2 ^ nat (b - 1)" n, where ?'a = rat] bb(1) by simp
    ultimately have lo: "(2::rat) ^ nat (b - 1) \<le> q" by linarith
    have "q < of_int n + 1" unfolding n_def by linarith
    moreover have "n + 1 \<le> 2 ^ nat b" using bb(2) by simp
    then have "(of_int n :: rat) + 1 \<le> 2 ^ nat b"
      using of_int_le_iff[of "n + 1" "2 ^ nat b", where ?'a = rat] by simp
    ultimately have hi: "q < (2::rat) ^ nat b" by linarith
    have e: "floor_log2 q = b - 1" using True by (simp add: floor_log2_def b_def n_def)
    have p1: "power_int (2::rat) (b - 1) = 2 ^ nat (b - 1)" using b1 by (simp add: power_int_def)
    have p2: "power_int (2::rat) b = 2 ^ nat b" using b1 by (simp add: power_int_def)
    show ?thesis using lo hi by (simp add: e p1 p2)
  next
    case False
    then have q1: "q < 1" by simp
    define x where "x = 1 / q"
    have x1: "1 < x" using assms q1 by (simp add: x_def)
    define n where "n = \<lceil>x\<rceil> - 1"
    have n: "0 < n" using x1 by (simp add: n_def less_ceiling_iff)
    define b where "b = bitlen n"
    from bitlen_bounds[OF n] have bb: "2 ^ nat (b - 1) \<le> n" "n < 2 ^ nat b" by (simp_all add: b_def)
    have b1: "1 \<le> b" using n by (auto simp: b_def bitlen_alt_def)
    have "of_int n < x" unfolding n_def by linarith
    moreover have "(2::rat) ^ nat (b - 1) \<le> of_int n"
      using of_int_le_iff[of "2 ^ nat (b - 1)" n, where ?'a = rat] bb(1) by simp
    ultimately have lo: "(2::rat) ^ nat (b - 1) < x" by linarith
    have "x \<le> of_int n + 1" unfolding n_def by simp
    moreover have "n + 1 \<le> 2 ^ nat b" using bb(2) by simp
    then have "(of_int n :: rat) + 1 \<le> 2 ^ nat b"
      using of_int_le_iff[of "n + 1" "2 ^ nat b", where ?'a = rat] by simp
    ultimately have hi: "x \<le> (2::rat) ^ nat b" by linarith
    have e: "floor_log2 q = - b" using False by (simp add: floor_log2_def b_def n_def x_def)
    have p1: "power_int (2::rat) (- b) = 1 / 2 ^ nat b" using b1 by (simp add: power_int_def field_simps)
    have p2: "power_int (2::rat) (1 - b) = 1 / 2 ^ nat (b - 1)" using b1
      by (simp add: power_int_def field_simps nat_diff_distrib)
    have "1 / 2 ^ nat b \<le> q" using hi assms by (simp add: x_def field_simps)
    moreover have "q < 1 / 2 ^ nat (b - 1)" using lo assms by (simp add: x_def field_simps)
    ultimately show ?thesis by (simp add: e p1 p2)
  qed
  then show "power_int 2 (floor_log2 q) \<le> q" "q < power_int 2 (floor_log2 q + 1)" by simp_all
qed


lemma two_powi_less_cancel:
  assumes "power_int (2::rat) a < power_int 2 b"
  shows "a < b"
proof (rule ccontr)
  assume "\<not> a < b"
  then have "b \<le> a" by simp
  then have "power_int (2::rat) b \<le> power_int 2 a" by (rule power_int_increasing) simp
  with assms show False by simp
qed

lemma round_half_even_of_int: "round_half_even (of_int m) = m"
  by (simp add: round_half_even_def)

lemma round_double_exact:
  assumes "\<bar>k\<bar> < 2 ^ 53" "- 1074 \<le> j"
  shows "round_double (of_int k * power_int 2 j) = of_int k * power_int 2 j"
proof (cases "k = 0")
  case True
  then show ?thesis by (simp add: round_double_def)
next
  case False
  define q :: rat where "q = of_int k * power_int 2 j"
  have q0: "q \<noteq> 0" using False by (simp add: q_def)
  then have aq: "0 < \<bar>q\<bar>" by simp
  define e where "e = floor_log2 \<bar>q\<bar>"
  have "\<bar>q\<bar> = of_int \<bar>k\<bar> * power_int 2 j" by (simp add: q_def abs_mult)
  also have "\<dots> < 2 ^ 53 * power_int 2 j"
  proof -
    have "(of_int \<bar>k\<bar> :: rat) < of_int (2 ^ 53)" using assms(1) by (simp only: of_int_less_iff)
    then have "(of_int \<bar>k\<bar> :: rat) < 2 ^ 53" by simp
    moreover have "(0::rat) < power_int 2 j" by simp
    ultimately show ?thesis by (rule mult_strict_right_mono)
  qed
  also have "\<dots> = power_int 2 (53 + j)" by (simp add: power_int_add)
  finally have up: "\<bar>q\<bar> < power_int 2 (53 + j)" .
  have "power_int 2 e \<le> \<bar>q\<bar>" unfolding e_def by (rule floor_log2_bounds(1)[OF aq])
  with up have "power_int (2::rat) e < power_int 2 (53 + j)" by linarith
  then have e: "e < 53 + j" by (rule two_powi_less_cancel)
  define e' where "e' = max e (- 1022)"
  have t: "0 \<le> j - (e' - 52)" using e assms(2) by (simp add: e'_def)
  define t where "t = nat (j - (e' - 52))"
  have j: "j = (e' - 52) + int t" using \<open>0 \<le> j - (e' - 52)\<close> by (simp add: t_def)
  have "q / power_int 2 (e' - 52) = of_int k * power_int 2 (int t)"
    unfolding q_def by (subst j) (simp add: power_int_add)
  also have "\<dots> = of_int (k * 2 ^ t)" by simp
  finally have quo: "q / power_int 2 (e' - 52) = of_int (k * 2 ^ t)" .
  have "round_double q = of_int (round_half_even (q / power_int 2 (e' - 52))) * power_int 2 (e' - 52)"
    using q0 by (simp add: round_double_def Let_def e_def e'_def)
  also have "\<dots> = of_int (k * 2 ^ t) * power_int 2 (e' - 52)"
    by (simp only: quo round_half_even_of_int)
  also have "\<dots> = q / power_int 2 (e' - 52) * power_int 2 (e' - 52)" by (simp only: quo)
  also have "\<dots> = q" by simp
  finally show ?thesis by (simp add: q_def)
qed

lemma round_double_int:
  assumes "\<bar>k\<bar> < 2 ^ 53"
  shows "round_double (of_int k) = of_int k"
  using round_double_exact[OF assms, of 0] by simp

lemma round_double_half:
  assumes "\<bar>k\<bar> < 2 ^ 53"
  shows "round_double (of_int k / 2) = of_int k / 2"
  using round_double_exact[OF assms, of "- 1"] by simp

subsection \<open>Mixing\<close>

lemma dbl_limit_big: "2 ^ 53 \<le> dbl_limit"
  by (simp add: dbl_limit_def)

lemma float_of_int_small:
  assumes "\<bar>n\<bar> \<le> 255"
  shows "float_of_int n = Inr (of_int n)"
proof -
  have "\<bar>n\<bar> < 2 ^ 53" using assms by simp
  then have rd: "round_double (of_int n) = of_int n" by (rule round_double_int)
  have "(of_int \<bar>n\<bar> :: rat) \<le> of_int 255" using assms by (simp only: of_int_le_iff)
  then have "\<bar>of_int n :: rat\<bar> < 2 ^ 53" by simp
  with dbl_limit_big have "\<not> dbl_limit \<le> \<bar>of_int n :: rat\<bar>" by linarith
  then show ?thesis by (simp add: float_of_int_def rd)
qed

lemma py_mul_half:
  assumes "0 \<le> n" "n \<le> 255"
  shows "py_mul n (PyFloat (Finite (1 / 2))) = Inr (PyFloat (Finite (of_int n / 2)))"
proof -
  have n: "\<bar>n\<bar> \<le> 255" using assms by simp
  have "\<bar>n\<bar> < 2 ^ 53" using assms by simp
  then have rd: "round_double (of_int n / 2) = of_int n / 2" by (rule round_double_half)
  have "(of_int n :: rat) \<le> of_int 255" using assms by (simp only: of_int_le_iff)
  moreover have "(0::rat) \<le> of_int n" using assms by simp
  ultimately have "\<bar>of_int n / 2 :: rat\<bar> < 2 ^ 53" by simp
  with dbl_limit_big have "\<not> dbl_limit \<le> (of_int n / 2 :: rat)" "\<not> (of_int n / 2 :: rat) \<le> - dbl_limit"
    by linarith+
  then show ?thesis
    by (simp add: float_of_int_small[OF n] and_then_def ieee_def rd)
qed

lemma clip_range: "0 \<le> clip x" "clip x \<le> 255"
  by (simp_all add: clip_def)

lemma mul_half:
  assumes "0 \<le> red s" "red s \<le> 255" "0 \<le> green s" "green s \<le> 255"
    "0 \<le> blue s" "blue s \<le> 255"
  shows "mul s (PyFloat (Finite (1 / 2)))
     = Inr \<lparr>red = clip (half_even (red s)), green = clip (half_even (green s)),
            blue = clip (half_even (blue s))\<rparr>"
  using assms
  by (simp add: mul_def py_mul_half RGBColor_new_def and_then_def clamp_eq half_even_def
      del: py_mul.simps)

lemma mix_eq:
  "mix a b = Inr \<lparr>red = clip (half_even (clip (red a + red b))),
                  green = clip (half_even (clip (green a + green b))),
                  blue = clip (half_even (clip (blue a + blue b)))\<rparr>"
proof -
  define s where "s = \<lparr>red = clip (red a + red b), green = clip (green a + green b),
    blue = clip (blue a + blue b)\<rparr>"
  have add: "add a b = Inr s"
    by (simp add: add_def RGBColor_new_int and_then_def clamp_eq s_def)
  have "mul s (PyFloat (Finite (1 / 2)))
     = Inr \<lparr>red = clip (half_even (red s)), green = clip (half_even (green s)),
            blue = clip (half_even (blue s))\<rparr>"
    by (rule mul_half) (simp_all add: s_def clip_range)
  then show ?thesis
    by (simp add: mix_def add and_then_def clamp_eq clip_idem) (simp add: s_def)
qed

text \<open>
  C1, at the input where the code departs from it. The claim: \<open>mix(a, b)\<close> is the
  component-wise average of \<open>a\<close> and \<open>b\<close>, clamped, and mixing white with white gives
  white. The code: the sum is clamped to 255 before it is halved, so each channel is half
  of the clamped sum, rounded half to even; mixing \<open>Color(255, 255, 255)\<close> with itself
  gives \<open>Color(128, 128, 128)\<close>.
\<close>

theorem mix_halves_the_clamped_sum:
  "mix a b = Inr \<lparr>red = clip (half_even (clip (red a + red b))),
                  green = clip (half_even (clip (green a + green b))),
                  blue = clip (half_even (clip (blue a + blue b)))\<rparr>
   \<and> mix \<lparr>red = 255, green = 255, blue = 255\<rparr> \<lparr>red = 255, green = 255, blue = 255\<rparr>
       = Inr \<lparr>red = 128, green = 128, blue = 128\<rparr>"
proof -
  have "\<lfloor>255 / 2 :: rat\<rfloor> = 127" by (simp add: floor_eq_iff)
  then have "round_half_even (255 / 2) = 128"
    by (simp add: round_half_even_def Let_def)
  then have "mix \<lparr>red = 255, green = 255, blue = 255\<rparr> \<lparr>red = 255, green = 255, blue = 255\<rparr>
      = Inr \<lparr>red = 128, green = 128, blue = 128\<rparr>"
    by (simp add: mix_eq half_even_def clip_def)
  with mix_eq[of a b] show ?thesis by simp
qed

subsection \<open>Division by a scalar\<close>









































































end
